theory Spec2Isabelle
  imports Main
begin

section \<open>Data model\<close>

text \<open>
  The backend is an Express application over a Prisma store. Every route handler is
  embedded as a function from the store to a result and the store it leaves behind:
  a thrown error (handed to \<open>next(error)\<close>) is the \<open>Inl\<close> branch, a JSON response the
  \<open>Inr\<close> branch. Identifiers are UUID strings, timestamps are milliseconds.
\<close>

type_synonym uuid = string

datatype role = ADMIN | HR | MANAGER | EMPLOYEE

text \<open>
  The error classes of \<open>utils/errors.js\<close> as the routes construct them: message and
  optional error code, or message and HTTP status for \<open>AppError\<close>. \<open>PrismaError\<close> is an
  exception raised by the store (its Prisma code). \<open>JsonError n msg\<close> is the reply
  \<open>res.status(n).json(...)\<close> of the handlers that answer failures themselves, with the
  status and a word for the error body.
  \<open>InvalidToken\<close>, \<open>Forbidden\<close> and
  \<open>Unauthenticated\<close> are the failures of the components whose code is not among the
  sources (token ledger and authorization guard), named as the specification names them.
\<close>

datatype error =
    ValidationError string "string option"
  | AuthenticationError string "string option"
  | AppError string nat
  | NotFoundError string
  | PrismaError string
  | JsonError nat string
  | InvalidToken
  | Forbidden
  | Unauthenticated

record employee =
  emp_id :: uuid

record user_public =
  u_id :: uuid
  u_email :: string
  u_role :: role
  u_isActive :: bool
  u_employee :: "employee option"
  u_lastLoginAt :: "int option"

record user = user_public +
  u_password :: string

record refreshToken =
  rt_token :: string
  rt_userId :: uuid
  rt_expiresAt :: int

record passwordResetToken =
  prt_token :: string
  prt_userId :: uuid
  prt_expiresAt :: int

datatype action = CREATE | UPDATE | DELETE | READ

record auditLog =
  al_userId :: uuid
  al_action :: action
  al_resource :: string
  al_resourceId :: "uuid option"

datatype payrollStatus = DRAFT | PROCESSED | PAID | CANCELLED

record payrollRecord =
  pr_id :: uuid
  pr_employeeId :: uuid
  pr_payPeriodStart :: int
  pr_payPeriodEnd :: int
  pr_netPay :: int
  pr_status :: payrollStatus

record setting =
  st_id :: uuid
  st_key :: string
  st_value :: string
  st_category :: "string option"
  st_isPublic :: "bool option"

record department =
  dp_id :: uuid
  dp_name :: string
  dp_managerId :: "uuid option"
  dp_parentId :: "uuid option"
  dp_description :: "string option"
  dp_isActive :: bool

record trainingRecord =
  tr_id :: uuid
  tr_employeeId :: uuid
  tr_programId :: uuid

record db =
  users :: "user list"
  refreshTokens :: "refreshToken list"
  passwordResetTokens :: "passwordResetToken list"
  auditLogs :: "auditLog list"
  payrollRecords :: "payrollRecord list"
  settings :: "setting list"
  departments :: "department list"
  employees :: "employee list"
  trainingRecords :: "trainingRecord list"

text \<open>
  What a handler reads from its surroundings during one request: the clock
  (\<open>Date.now()\<close>), the random draw behind a freshly minted token, the identifier the
  store assigns to a created row, and the process environment.
\<close>

record runtime =
  now :: int
  rand :: string
  newId :: uuid
  env :: "string \<rightharpoonup> string"

text \<open>
  Library functions the handlers call (bcryptjs, the JavaScript \<open>parseInt\<close>, the
  format checks of zod). They are parameters of the model. A JavaScript number that
  may be \<open>NaN\<close> is an \<open>int option\<close>, with \<open>None\<close> for \<open>NaN\<close>.
\<close>

record ext =
  bcrypt_hash :: "string \<Rightarrow> int option \<Rightarrow> string"
  bcrypt_compare :: "string \<Rightarrow> string \<Rightarrow> bool"
  parseInt :: "string \<Rightarrow> int option"
  isEmail :: "string \<Rightarrow> bool"
  isUuid :: "string \<Rightarrow> bool"

text \<open>The request's user, as the \<open>authenticate\<close> middleware leaves it in \<open>req.user\<close>.\<close>

record caller =
  c_id :: uuid
  c_role :: role
  c_employee :: "employee option"

section \<open>Collaborators whose code is not among the sources\<close>

text \<open>
  Modelled from the spec: \<open>middleware/auditMiddleware.js\<close> (\<open>createAuditLog\<close>) is
  missing. Section 4.5: \<open>record(actorId, actionKind, resourceType, resourceId, before,
  after, context)\<close> appends one entry; a failed write is not fatal to the caller. The
  snapshots and the request context are carried by the call and not kept in the model.
\<close>

definition createAuditLog :: "uuid \<Rightarrow> action \<Rightarrow> string \<Rightarrow> uuid option \<Rightarrow> db \<Rightarrow> db" where
  "createAuditLog actor act resource resourceId d =
     d\<lparr>auditLogs := auditLogs d @
        [\<lparr>al_userId = actor, al_action = act, al_resource = resource,
          al_resourceId = resourceId\<rparr>]\<rparr>"

text \<open>
  Modelled from the spec: \<open>utils/authUtils.js\<close> (\<open>generateTokens\<close>) is missing.
  Section 4.2: the access token is a signed, short-lived credential encoding user id
  and role; the refresh token is a high-entropy random value. The random value is the
  request's draw \<open>rand\<close>.
\<close>

datatype accessToken = AccessToken uuid role

record tokens =
  accessToken :: accessToken
  refreshToken :: string

definition generateTokens :: "uuid \<Rightarrow> role \<Rightarrow> runtime \<Rightarrow> tokens" where
  "generateTokens userId r rt = \<lparr>accessToken = AccessToken userId r, refreshToken = rand rt\<rparr>"

text \<open>
  Modelled from the spec: the refresh endpoint is missing (\<open>authRoutes.js\<close> imports
  \<open>verifyRefreshToken\<close> and defines no route that calls it). Section 4.2:
  \<open>refresh(refreshToken)\<close> fails with \<open>InvalidToken\<close> if the token is absent or
  expired; on success a new access token is issued and the refresh token stays as it is.
\<close>

definition refresh :: "runtime \<Rightarrow> string \<Rightarrow> db \<Rightarrow> error + accessToken" where
  "refresh rt tok d =
     (case find (\<lambda>t. rt_token t = tok) (refreshTokens d) of
        None \<Rightarrow> Inl InvalidToken
      | Some t \<Rightarrow>
          if rt_expiresAt t < now rt then Inl InvalidToken
          else (case find (\<lambda>u. u_id u = rt_userId t) (users d) of
                  None \<Rightarrow> Inl InvalidToken
                | Some u \<Rightarrow> Inr (AccessToken (u_id u) (u_role u))))"

text \<open>
  Modelled from the spec: the Prisma schema is missing. A created user is active until
  it is deactivated (section 3), and the token column of a refresh token is
  unique-constrained (section 6): creating a second row with a stored token value
  raises the store's unique-constraint error \<open>P2002\<close>. A row whose expiry is the
  invalid date \<open>new Date(NaN)\<close> is rejected by the store's argument validation.
\<close>

definition isActive_default :: bool where
  "isActive_default = True"

definition refreshToken_create :: "string \<Rightarrow> uuid \<Rightarrow> int option \<Rightarrow> db \<Rightarrow> error + db" where
  "refreshToken_create tok userId expiresAt d =
     (case expiresAt of
        None \<Rightarrow> Inl (PrismaError ''Invalid Date'')
      | Some e \<Rightarrow>
          if tok \<in> rt_token ` set (refreshTokens d) then Inl (PrismaError ''P2002'')
          else Inr (d\<lparr>refreshTokens := refreshTokens d @
                         [\<lparr>rt_token = tok, rt_userId = userId, rt_expiresAt = e\<rparr>]\<rparr>))"

text \<open>
  Modelled from the spec: the Prisma schema is missing. Section 6: a user has a unique
  id and a unique-constrained email, so \<open>prisma.user.create\<close> of a row with a stored
  identifier or email raises \<open>P2002\<close>.
\<close>

definition user_create :: "user \<Rightarrow> db \<Rightarrow> error + db" where
  "user_create usr d =
     (if u_id usr \<in> u_id ` set (users d) \<or> u_email usr \<in> u_email ` set (users d)
      then Inl (PrismaError ''P2002'')
      else Inr (d\<lparr>users := users d @ [usr]\<rparr>))"

text \<open>\<open>Date.now() + parseInt(...)\<close>: the sum with \<open>NaN\<close> is \<open>NaN\<close>.\<close>

definition plus_ms :: "int \<Rightarrow> int option \<Rightarrow> int option" where
  "plus_ms t ms = map_option (\<lambda>n. t + n) ms"

section \<open>Auth routes (\<open>routes/authRoutes.js\<close>)\<close>

definition getEnvVariable :: "(string \<rightharpoonup> string) \<Rightarrow> string \<Rightarrow> string \<Rightarrow> string" where
  "getEnvVariable e key defaultValue =
     (case e key of
        None \<Rightarrow> defaultValue
      | Some v \<Rightarrow> if v = [] then defaultValue else v)"

definition user_findUnique_email :: "string \<Rightarrow> db \<Rightarrow> user option" where
  "user_findUnique_email email d = find (\<lambda>u. u_email u = email) (users d)"

record registerBody =
  rb_email :: string
  rb_password :: string
  rb_role :: "role option"

record authResponse =
  ar_user :: user_public
  ar_accessToken :: accessToken
  ar_refreshToken :: string

text \<open>\<open>POST /register\<close>. The argument is \<open>req.validatedData?.body\<close>.\<close>

definition register :: "ext \<Rightarrow> runtime \<Rightarrow> registerBody option \<Rightarrow> db \<Rightarrow> (error + authResponse) \<times> db" where
  "register x rt vbody d =
     (case vbody of
        None \<Rightarrow> (Inl (ValidationError ''Validation data missing'' (Some ''VALIDATION_FAILED'')), d)
      | Some b \<Rightarrow>
          (case user_findUnique_email (rb_email b) d of
             Some existingUser \<Rightarrow>
               (Inl (ValidationError ''User already exists with this email'' (Some ''USER_EXISTS'')), d)
           | None \<Rightarrow>
               let saltRounds = parseInt x (getEnvVariable (env rt) ''BCRYPT_ROUNDS'' ''12'');
                   hashedPassword = bcrypt_hash x (rb_password b) saltRounds;
                   usr = \<lparr>u_id = newId rt, u_email = rb_email b,
                          u_role = (case rb_role b of None \<Rightarrow> EMPLOYEE | Some r \<Rightarrow> r),
                          u_isActive = isActive_default, u_employee = None,
                          u_lastLoginAt = None, u_password = hashedPassword\<rparr>
               in (case user_create usr d of
                     Inl e \<Rightarrow> (Inl e, d)
                   | Inr d1 \<Rightarrow>
                       let toks = generateTokens (u_id usr) (u_role usr) rt
                       in (case refreshToken_create (refreshToken toks) (u_id usr)
                                  (plus_ms (now rt)
                                     (parseInt x (getEnvVariable (env rt)
                                        ''REFRESH_TOKEN_EXPIRES_MS'' ''604800000'')))
                                  d1 of
                             Inl e \<Rightarrow> (Inl e, d1)
                           | Inr d2 \<Rightarrow>
                               (Inr \<lparr>ar_user = user_public.truncate usr,
                                     ar_accessToken = accessToken toks,
                                     ar_refreshToken = refreshToken toks\<rparr>,
                                createAuditLog (u_id usr) CREATE ''users'' (Some (u_id usr)) d2)))))"

text \<open>
  Credential verification: lines 83 to 96 of the login handler (look the user up by
  email, reject a missing or inactive user, compare the password with the stored hash).
\<close>

definition verify :: "ext \<Rightarrow> string \<Rightarrow> string \<Rightarrow> db \<Rightarrow> error + user" where
  "verify x email password d =
     (case user_findUnique_email email d of
        None \<Rightarrow> Inl (AuthenticationError ''Invalid credentials'' (Some ''INVALID_CREDENTIALS''))
      | Some usr \<Rightarrow>
          if \<not> u_isActive usr
          then Inl (AuthenticationError ''Invalid credentials'' (Some ''INVALID_CREDENTIALS''))
          else if \<not> bcrypt_compare x password (u_password usr)
          then Inl (AuthenticationError ''Invalid credentials'' (Some ''INVALID_CREDENTIALS''))
          else Inr usr)"

record loginBody =
  lb_email :: string
  lb_password :: string

text \<open>\<open>POST /login\<close>. The argument is \<open>req.validatedData?.body\<close>.\<close>

definition login :: "ext \<Rightarrow> runtime \<Rightarrow> loginBody option \<Rightarrow> db \<Rightarrow> (error + authResponse) \<times> db" where
  "login x rt vbody d =
     (case vbody of
        None \<Rightarrow> (Inl (ValidationError ''Validation data missing'' (Some ''VALIDATION_FAILED'')), d)
      | Some b \<Rightarrow>
          (case verify x (lb_email b) (lb_password b) d of
             Inl e \<Rightarrow> (Inl e, d)
           | Inr usr \<Rightarrow>
               let toks = generateTokens (u_id usr) (u_role usr) rt;
                   d1 = d\<lparr>refreshTokens := filter (\<lambda>t. rt_userId t \<noteq> u_id usr) (refreshTokens d)\<rparr>
               in (case refreshToken_create (refreshToken toks) (u_id usr)
                          (plus_ms (now rt)
                             (parseInt x (getEnvVariable (env rt) ''REFRESH_TOKEN_EXPIRES_MS'' ''604800000'')))
                          d1 of
                     Inl e \<Rightarrow> (Inl e, d1)
                   | Inr d2 \<Rightarrow>
                       let d3 = d2\<lparr>users := map (\<lambda>u. if u_id u = u_id usr
                                                      then u\<lparr>u_lastLoginAt := Some (now rt)\<rparr> else u)
                                                 (users d2)\<rparr>
                       in (Inr \<lparr>ar_user = user_public.truncate usr,
                                ar_accessToken = accessToken toks,
                                ar_refreshToken = refreshToken toks\<rparr>, d3))))"

section \<open>Authorization guard\<close>

text \<open>
  Modelled from the spec: \<open>middleware/auth.js\<close> (\<open>authenticate\<close>, \<open>authorize\<close>) is
  missing. Section 4.4: a request whose access token does not validate is
  \<open>Unauthenticated\<close> (401); the caller's role must be a member of the endpoint's
  declared allowed-role set, failure is \<open>Denied\<close> (403, here \<open>Forbidden\<close>). The
  argument of \<open>authenticate\<close> is the user the token resolves to, \<open>None\<close> when it does
  not validate.
\<close>

definition authenticate :: "caller option \<Rightarrow> error + caller" where
  "authenticate req_user = (case req_user of None \<Rightarrow> Inl Unauthenticated | Some c \<Rightarrow> Inr c)"

definition authorize :: "role list \<Rightarrow> caller \<Rightarrow> error + unit" where
  "authorize allowed c = (if c_role c \<in> set allowed then Inr () else Inl Forbidden)"

text \<open>The middleware chain \<open>authenticate, authorize(...)\<close> in front of a handler.\<close>

definition guarded :: "role list \<Rightarrow> caller option \<Rightarrow> error + caller" where
  "guarded allowed req_user =
     (case authenticate req_user of
        Inl e \<Rightarrow> Inl e
      | Inr c \<Rightarrow> (case authorize allowed c of Inl e \<Rightarrow> Inl e | Inr _ \<Rightarrow> Inr c))"

text \<open>A caller is denied when the request ends in a 403.\<close>

fun denied :: "error \<Rightarrow> bool" where
  "denied Forbidden = True"
| "denied (AppError msg status) = (status = 403)"
| "denied (JsonError status msg) = (status = 403)"
| "denied _ = False"

section \<open>Payroll routes (\<open>routes/payrollRecordRoutes.js\<close>)\<close>

text \<open>
  \<open>req.validatedData.query\<close> of the list route. The schema admits digit strings for
  \<open>page\<close> and \<open>limit\<close>, so \<open>parseInt\<close> of them is a natural number; the dates are
  the timestamps \<open>new Date(...)\<close> gives.
\<close>

record listQuery =
  q_page :: nat
  q_limit :: nat
  q_employeeId :: "uuid option"
  q_status :: "payrollStatus option"
  q_startDate :: "int option"
  q_endDate :: "int option"

record payrollWhere =
  w_employeeId :: "uuid option"
  w_status :: "payrollStatus option"
  w_gte :: "int option"
  w_lte :: "int option"

text \<open>Lines 65 to 76: the filter built from the query, then the own-records rule.\<close>

definition list_where :: "caller \<Rightarrow> listQuery \<Rightarrow> payrollWhere" where
  "list_where c q =
     (let w = \<lparr>w_employeeId = q_employeeId q, w_status = q_status q,
                w_gte = q_startDate q, w_lte = q_endDate q\<rparr>
      in if c_role c = EMPLOYEE \<and> c_employee c \<noteq> None
         then w\<lparr>w_employeeId := map_option emp_id (c_employee c)\<rparr>
         else w)"

definition matches :: "payrollWhere \<Rightarrow> payrollRecord \<Rightarrow> bool" where
  "matches w r \<longleftrightarrow>
     (case w_employeeId w of None \<Rightarrow> True | Some e \<Rightarrow> pr_employeeId r = e) \<and>
     (case w_status w of None \<Rightarrow> True | Some s \<Rightarrow> pr_status r = s) \<and>
     (case w_gte w of None \<Rightarrow> True | Some t \<Rightarrow> t \<le> pr_payPeriodStart r) \<and>
     (case w_lte w of None \<Rightarrow> True | Some t \<Rightarrow> pr_payPeriodStart r \<le> t)"

text \<open>
  \<open>prisma.payrollRecord.findMany\<close> with \<open>where\<close>, \<open>skip\<close>, \<open>take\<close> and
  \<open>orderBy: { payPeriodStart: 'desc' }\<close>. The store rejects a negative \<open>skip\<close>.
\<close>

definition payrollRecord_findMany :: "payrollWhere \<Rightarrow> int \<Rightarrow> nat \<Rightarrow> db \<Rightarrow> error + payrollRecord list" where
  "payrollRecord_findMany w skip tk d =
     (if skip < 0 then Inl (PrismaError ''Invalid value for skip'')
      else Inr (take tk (drop (nat skip)
                  (sort_key (\<lambda>r. - pr_payPeriodStart r) (filter (matches w) (payrollRecords d))))))"

definition payrollRecord_count :: "payrollWhere \<Rightarrow> db \<Rightarrow> nat" where
  "payrollRecord_count w d = length (filter (matches w) (payrollRecords d))"

text \<open>\<open>Math.ceil(total / limit)\<close>; the quotient by zero is not a finite number.\<close>

definition pages_of :: "nat \<Rightarrow> nat \<Rightarrow> nat option" where
  "pages_of tot lim = (if lim = 0 then None else Some ((tot + lim - 1) div lim))"

record payrollList =
  pl_records :: "payrollRecord list"
  pl_page :: nat
  pl_limit :: nat
  pl_total :: nat
  pl_pages :: "nat option"

text \<open>
  \<open>GET /\<close>. The second argument is what \<open>validate(listPayrollRecordsSchema)\<close> yields:
  its error, or \<open>req.validatedData.query\<close>.
\<close>

definition payroll_list :: "caller option \<Rightarrow> error + listQuery \<Rightarrow> db \<Rightarrow> (error + payrollList) \<times> db" where
  "payroll_list req_user vquery d =
     (case guarded [ADMIN, HR, EMPLOYEE] req_user of
        Inl e \<Rightarrow> (Inl e, d)
      | Inr c \<Rightarrow>
          (case vquery of
             Inl e \<Rightarrow> (Inl e, d)
           | Inr q \<Rightarrow>
               let skip = (int (q_page q) - 1) * int (q_limit q);
                   w = list_where c q
               in (case payrollRecord_findMany w skip (q_limit q) d of
                     Inl e \<Rightarrow> (Inl e, d)
                   | Inr records \<Rightarrow>
                       let tot = payrollRecord_count w d
                       in (Inr \<lparr>pl_records = records, pl_page = q_page q, pl_limit = q_limit q,
                                pl_total = tot, pl_pages = pages_of tot (q_limit q)\<rparr>,
                           createAuditLog (c_id c) READ ''payroll_records'' None d))))"

text \<open>
  \<open>GET /:id\<close>. \<open>req.user.employee?.id\<close> is \<open>undefined\<close> for a caller without a
  linked employee, and then differs from every record's \<open>employeeId\<close>.
\<close>

definition payroll_get :: "caller option \<Rightarrow> uuid \<Rightarrow> db \<Rightarrow> (error + payrollRecord) \<times> db" where
  "payroll_get req_user ident d =
     (case guarded [ADMIN, HR, EMPLOYEE] req_user of
        Inl e \<Rightarrow> (Inl e, d)
      | Inr c \<Rightarrow>
          (case find (\<lambda>r. pr_id r = ident) (payrollRecords d) of
             None \<Rightarrow> (Inl (NotFoundError ''Payroll record not found''), d)
           | Some record \<Rightarrow>
               if c_role c = EMPLOYEE \<and> map_option emp_id (c_employee c) \<noteq> Some (pr_employeeId record)
               then (Inl (AppError ''Access denied'' 403), d)
               else (Inr record, createAuditLog (c_id c) READ ''payroll_records'' (Some ident) d)))"

section \<open>User routes\<close>

record usersQuery =
  uq_page :: nat
  uq_limit :: nat
  uq_search :: "string option"
  uq_role :: "role option"
  uq_isActive :: "string option"

text \<open>
  \<open>GET /\<close> (list users). \<open>userService.getAllUsers\<close> is in \<open>services/userService.js\<close>,
  which is not among the sources; it is the parameter \<open>getAllUsers\<close>.
\<close>

definition users_list ::
  "(usersQuery \<Rightarrow> db \<Rightarrow> error + 'page) \<Rightarrow> caller option \<Rightarrow> error + usersQuery \<Rightarrow> db
     \<Rightarrow> (error + 'page) \<times> db" where
  "users_list getAllUsers req_user vquery d =
     (case guarded [ADMIN, HR] req_user of
        Inl e \<Rightarrow> (Inl e, d)
      | Inr c \<Rightarrow>
          (case vquery of
             Inl e \<Rightarrow> (Inl e, d)
           | Inr q \<Rightarrow>
               (case getAllUsers q d of
                  Inl e \<Rightarrow> (Inl e, d)
                | Inr page \<Rightarrow> (Inr page, createAuditLog (c_id c) READ ''users'' None d))))"

text \<open>
  Modelled from the spec: \<open>services/userService.js\<close> (\<open>requestPasswordReset\<close>,
  \<open>resetPassword\<close>) is missing. Section 4.3: \<open>requestReset(email)\<close> always returns
  success; if the user exists, a single-use token with an expiry of one hour is
  created. \<open>completeReset(token, newPassword)\<close> fails with \<open>InvalidToken\<close> if the token
  is missing, expired or already consumed; on success the password hash is replaced and
  the token is consumed (its row deleted) in the same step.
\<close>

definition RESET_TOKEN_TTL_MS :: int where
  "RESET_TOKEN_TTL_MS = 3600000"

definition requestPasswordReset :: "runtime \<Rightarrow> string \<Rightarrow> db \<Rightarrow> (error + unit) \<times> db" where
  "requestPasswordReset rt email d =
     (case user_findUnique_email email d of
        None \<Rightarrow> (Inr (), d)
      | Some usr \<Rightarrow>
          (Inr (), d\<lparr>passwordResetTokens := passwordResetTokens d @
                      [\<lparr>prt_token = rand rt, prt_userId = u_id usr,
                        prt_expiresAt = now rt + RESET_TOKEN_TTL_MS\<rparr>]\<rparr>))"

record resetBody =
  rs_token :: string
  rs_newPassword :: string

definition resetPassword :: "ext \<Rightarrow> runtime \<Rightarrow> resetBody \<Rightarrow> db \<Rightarrow> (error + unit) \<times> db" where
  "resetPassword x rt b d =
     (case find (\<lambda>t. prt_token t = rs_token b) (passwordResetTokens d) of
        None \<Rightarrow> (Inl InvalidToken, d)
      | Some t \<Rightarrow>
          if prt_expiresAt t < now rt then (Inl InvalidToken, d)
          else if prt_userId t \<notin> u_id ` set (users d) then (Inl InvalidToken, d)
          else (Inr (),
                d\<lparr>users := map (\<lambda>u. if u_id u = prt_userId t
                                     then u\<lparr>u_password := bcrypt_hash x (rs_newPassword b)
                                            (parseInt x (getEnvVariable (env rt) ''BCRYPT_ROUNDS'' ''12''))\<rparr>
                                     else u) (users d),
                  passwordResetTokens :=
                    filter (\<lambda>t'. prt_token t' \<noteq> rs_token b) (passwordResetTokens d)\<rparr>))"

text \<open>
  \<open>POST /reset-password-request\<close> and \<open>PATCH /reset-password\<close>. The argument is what
  \<open>validate(...)\<close> yields: its error, or \<open>req.validatedData.body\<close>. The result is the
  \<open>message\<close> of the success response.
\<close>

definition reset_password_request :: "runtime \<Rightarrow> error + string \<Rightarrow> db \<Rightarrow> (error + string) \<times> db" where
  "reset_password_request rt vbody d =
     (case vbody of
        Inl e \<Rightarrow> (Inl e, d)
      | Inr email \<Rightarrow>
          (case requestPasswordReset rt email d of
             (Inl e, d') \<Rightarrow> (Inl e, d')
           | (Inr _, d') \<Rightarrow> (Inr ''Reset token sent'', d')))"

definition reset_password :: "ext \<Rightarrow> runtime \<Rightarrow> error + resetBody \<Rightarrow> db \<Rightarrow> (error + string) \<times> db" where
  "reset_password x rt vbody d =
     (case vbody of
        Inl e \<Rightarrow> (Inl e, d)
      | Inr b \<Rightarrow>
          (case resetPassword x rt b d of
             (Inl e, d') \<Rightarrow> (Inl e, d')
           | (Inr _, d') \<Rightarrow> (Inr ''Password reset successfully'', d')))"

section \<open>Audit log routes (\<open>routes/auditLogRoutes.js\<close>)\<close>

text \<open>The raw query string parameters of \<open>GET /\<close>.\<close>

record auditQuery =
  aq_userId :: "string option"
  aq_action :: "string option"
  aq_resource :: "string option"
  aq_page :: "string option"
  aq_limit :: "string option"

record auditFilter =
  af_userId :: "string option"
  af_action :: "string option"
  af_resource :: "string option"
  af_page :: "int option"
  af_limit :: "int option"

text \<open>
  \<open>validateAuditLog\<close>: \<open>auditLogSchema.safeParse(req.query)\<close>. The transforms:
  \<open>val ? Math.max(1, parseInt(val)) : 1\<close> and \<open>val ? Math.min(parseInt(val), 100) : 10\<close>;
  the empty string is falsy, and \<open>Math.max\<close> and \<open>Math.min\<close> of \<open>NaN\<close> are \<open>NaN\<close>.
\<close>

definition validateAuditLog :: "ext \<Rightarrow> auditQuery \<Rightarrow> error + auditFilter" where
  "validateAuditLog x q =
     (if (case aq_userId q of None \<Rightarrow> True | Some u \<Rightarrow> isUuid x u) \<and>
         (case aq_action q of None \<Rightarrow> True
          | Some a \<Rightarrow> a \<in> set [''CREATE'', ''UPDATE'', ''DELETE'', ''VIEW''])
      then Inr \<lparr>af_userId = aq_userId q, af_action = aq_action q, af_resource = aq_resource q,
                af_page = (case aq_page q of None \<Rightarrow> Some 1
                           | Some v \<Rightarrow> if v = [] then Some 1 else map_option (max 1) (parseInt x v)),
                af_limit = (case aq_limit q of None \<Rightarrow> Some 10
                            | Some v \<Rightarrow> if v = [] then Some 10
                                        else map_option (\<lambda>n. min n 100) (parseInt x v))\<rparr>
      else Inl (JsonError 400 ''validation''))"

record auditList =
  alr_logs :: "auditLog list"
  alr_total :: nat
  alr_page :: "int option"
  alr_limit :: "int option"

text \<open>\<open>GET /\<close> (list audit logs): the handler builds \<open>filters\<close> and does not query the store.\<close>

definition auditLog_list :: "ext \<Rightarrow> caller option \<Rightarrow> auditQuery \<Rightarrow> db \<Rightarrow> (error + auditList) \<times> db" where
  "auditLog_list x req_user query d =
     (case guarded [ADMIN, HR] req_user of
        Inl e \<Rightarrow> (Inl e, d)
      | Inr c \<Rightarrow>
          (case validateAuditLog x query of
             Inl e \<Rightarrow> (Inl e, d)
           | Inr v \<Rightarrow>
               let logs = []; tot = 0
               in (Inr \<lparr>alr_logs = logs, alr_total = tot, alr_page = af_page v,
                        alr_limit = af_limit v\<rparr>, d)))"

section \<open>Setting routes\<close>

record settingBody =
  sb_key :: "string option"
  sb_value :: "string option"
  sb_category :: "string option"
  sb_isPublic :: "bool option"

text \<open>\<open>validateSetting\<close>: \<open>settingSchema.parse(req.body)\<close>, a 400 reply on failure.\<close>

definition validateSetting :: "settingBody \<Rightarrow> error + settingBody" where
  "validateSetting b =
     (case (sb_key b, sb_value b) of
        (Some k, Some v) \<Rightarrow> if 1 \<le> length k \<and> 1 \<le> length v then Inr b
                            else Inl (JsonError 400 ''validation'')
      | _ \<Rightarrow> Inl (JsonError 400 ''validation''))"

text \<open>
  \<open>prisma.setting.create\<close>: the store assigns the identifier; a primary key that is
  already stored raises \<open>P2002\<close>.
\<close>

definition setting_create :: "runtime \<Rightarrow> settingBody \<Rightarrow> db \<Rightarrow> error + setting \<times> db" where
  "setting_create rt b d =
     (if newId rt \<in> st_id ` set (settings d) then Inl (PrismaError ''P2002'')
      else let row = \<lparr>st_id = newId rt, st_key = the (sb_key b), st_value = the (sb_value b),
                       st_category = sb_category b, st_isPublic = sb_isPublic b\<rparr>
           in Inr (row, d\<lparr>settings := settings d @ [row]\<rparr>))"

text \<open>
  \<open>POST /\<close> (create setting): \<open>authMiddleware, roleMiddleware(['ADMIN']),
  validateSetting\<close>, then the handler; a store exception is answered with a 500.
\<close>

definition setting_post :: "runtime \<Rightarrow> caller option \<Rightarrow> settingBody \<Rightarrow> db \<Rightarrow> (error + setting) \<times> db" where
  "setting_post rt req_user body d =
     (case guarded [ADMIN] req_user of
        Inl e \<Rightarrow> (Inl e, d)
      | Inr c \<Rightarrow>
          (case validateSetting body of
             Inl e \<Rightarrow> (Inl e, d)
           | Inr b \<Rightarrow>
               (case setting_create rt b d of
                  Inl e \<Rightarrow> (Inl (JsonError 500 ''Server error''), d)
                | Inr (newSetting, d') \<Rightarrow> (Inr newSetting, d'))))"

section \<open>Training record routes\<close>

record trainingRecordBody =
  tb_employeeId :: "string option"
  tb_programId :: "string option"

definition validateTrainingRecord :: "ext \<Rightarrow> trainingRecordBody \<Rightarrow> error + trainingRecordBody" where
  "validateTrainingRecord x b =
     (case (tb_employeeId b, tb_programId b) of
        (Some e, Some p) \<Rightarrow> if isUuid x e \<and> isUuid x p then Inr b
                            else Inl (JsonError 400 ''validation'')
      | _ \<Rightarrow> Inl (JsonError 400 ''validation''))"

definition trainingRecord_create :: "runtime \<Rightarrow> trainingRecordBody \<Rightarrow> db \<Rightarrow> error + trainingRecord \<times> db" where
  "trainingRecord_create rt b d =
     (if newId rt \<in> tr_id ` set (trainingRecords d) then Inl (PrismaError ''P2002'')
      else let row = \<lparr>tr_id = newId rt, tr_employeeId = the (tb_employeeId b),
                       tr_programId = the (tb_programId b)\<rparr>
           in Inr (row, d\<lparr>trainingRecords := trainingRecords d @ [row]\<rparr>))"

text \<open>\<open>POST /\<close> (create training record).\<close>

definition trainingRecord_post ::
  "ext \<Rightarrow> runtime \<Rightarrow> caller option \<Rightarrow> trainingRecordBody \<Rightarrow> db \<Rightarrow> (error + trainingRecord) \<times> db" where
  "trainingRecord_post x rt req_user body d =
     (case guarded [ADMIN, HR] req_user of
        Inl e \<Rightarrow> (Inl e, d)
      | Inr c \<Rightarrow>
          (case validateTrainingRecord x body of
             Inl e \<Rightarrow> (Inl e, d)
           | Inr b \<Rightarrow>
               (case trainingRecord_create rt b d of
                  Inl e \<Rightarrow> (Inl (JsonError 500 ''Server error''), d)
                | Inr (newRecord, d') \<Rightarrow> (Inr newRecord, d'))))"

section \<open>Department routes\<close>

record departmentBody =
  dpb_name :: string
  dpb_managerId :: "uuid option"
  dpb_parentId :: "uuid option"
  dpb_description :: "string option"

definition department_create :: "runtime \<Rightarrow> departmentBody \<Rightarrow> db \<Rightarrow> error + department \<times> db" where
  "department_create rt b d =
     (if newId rt \<in> dp_id ` set (departments d) then Inl (PrismaError ''P2002'')
      else let row = \<lparr>dp_id = newId rt, dp_name = dpb_name b, dp_managerId = dpb_managerId b,
                       dp_parentId = dpb_parentId b, dp_description = dpb_description b,
                       dp_isActive = True\<rparr>
           in Inr (row, d\<lparr>departments := departments d @ [row]\<rparr>))"

text \<open>
  \<open>POST /\<close> (create department). The third argument is what \<open>validate(departmentSchema)\<close>
  yields: its error, or \<open>req.validatedData.body\<close>.
\<close>

definition department_post ::
  "runtime \<Rightarrow> caller option \<Rightarrow> error + departmentBody \<Rightarrow> db \<Rightarrow> (error + department) \<times> db" where
  "department_post rt req_user vbody d =
     (case guarded [ADMIN, HR] req_user of
        Inl e \<Rightarrow> (Inl e, d)
      | Inr c \<Rightarrow>
          (case vbody of
             Inl e \<Rightarrow> (Inl e, d)
           | Inr b \<Rightarrow>
               if find (\<lambda>p. dp_name p = dpb_name b) (departments d) \<noteq> None
               then (Inl (ValidationError ''Department name already exists'' None), d)
               else if (case dpb_managerId b of None \<Rightarrow> False
                        | Some m \<Rightarrow> m \<noteq> [] \<and> find (\<lambda>e. emp_id e = m) (employees d) = None)
               then (Inl (ValidationError ''Manager not found'' None), d)
               else if (case dpb_parentId b of None \<Rightarrow> False
                        | Some p \<Rightarrow> p \<noteq> [] \<and> find (\<lambda>t. dp_id t = p) (departments d) = None)
               then (Inl (ValidationError ''Parent department not found'' None), d)
               else (case department_create rt b d of
                       Inl e \<Rightarrow> (Inl e, d)
                     | Inr (department, d') \<Rightarrow>
                         (Inr department,
                          createAuditLog (c_id c) CREATE ''department'' (Some (dp_id department)) d'))))"

section \<open>Reference values\<close>

text \<open>
  Concrete library functions, clock and stores on which the theorems below are
  evaluated: a decimal \<open>parseInt\<close>, and a stand-in for bcrypt that accepts exactly the
  password it hashed.
\<close>

definition decimal :: "string \<Rightarrow> int option" where
  "decimal s =
     (if s \<noteq> [] \<and> list_all (\<lambda>c. 48 \<le> (of_char c :: nat) \<and> (of_char c :: nat) \<le> 57) s
      then Some (foldl (\<lambda>n c. 10 * n + (int (of_char c) - 48)) 0 s) else None)"

definition ext0 :: ext where
  "ext0 = \<lparr>bcrypt_hash = (\<lambda>p r. ''$2a$'' @ p), bcrypt_compare = (\<lambda>p h. h = ''$2a$'' @ p),
           parseInt = decimal, isEmail = (\<lambda>s. CHR ''@'' \<in> set s),
           isUuid = (\<lambda>s. length s = 36)\<rparr>"

definition rt0 :: "int \<Rightarrow> string \<Rightarrow> uuid \<Rightarrow> runtime" where
  "rt0 t r i = \<lparr>now = t, rand = r, newId = i, env = Map.empty\<rparr>"

definition db0 :: db where
  "db0 = \<lparr>users = [], refreshTokens = [], passwordResetTokens = [], auditLogs = [],
          payrollRecords = [], settings = [], departments = [], employees = [],
          trainingRecords = []\<rparr>"

definition alice :: user where
  "alice = \<lparr>u_id = ''u-alice'', u_email = ''alice@x.com'', u_role = EMPLOYEE, u_isActive = True,
            u_employee = Some \<lparr>emp_id = ''e-alice''\<rparr>, u_lastLoginAt = None,
            u_password = ''$2a$wonderland''\<rparr>"

definition db_alice :: db where
  "db_alice = db0\<lparr>users := [alice],
     refreshTokens := [\<lparr>rt_token = ''old'', rt_userId = ''u-alice'', rt_expiresAt = 5000\<rparr>,
                       \<lparr>rt_token = ''bobs'', rt_userId = ''u-bob'', rt_expiresAt = 5000\<rparr>]\<rparr>"

definition aliceLogin :: loginBody where
  "aliceLogin = \<lparr>lb_email = ''alice@x.com'', lb_password = ''wonderland''\<rparr>"

definition alice_public :: "int option \<Rightarrow> user_public" where
  "alice_public t = \<lparr>u_id = ''u-alice'', u_email = ''alice@x.com'', u_role = EMPLOYEE,
      u_isActive = True, u_employee = Some \<lparr>emp_id = ''e-alice''\<rparr>, u_lastLoginAt = t\<rparr>"

definition alice_session :: "int option \<Rightarrow> string \<Rightarrow> authResponse" where
  "alice_session l r = \<lparr>ar_user = alice_public l, ar_accessToken = AccessToken ''u-alice'' EMPLOYEE,
      ar_refreshToken = r\<rparr>"

text \<open>The store after alice logged in at time \<open>t\<close> and drew the refresh token \<open>r\<close>.\<close>

definition after_login :: "int \<Rightarrow> string \<Rightarrow> db" where
  "after_login t r = db0\<lparr>users := [alice\<lparr>u_lastLoginAt := Some t\<rparr>],
     refreshTokens := [\<lparr>rt_token = ''bobs'', rt_userId = ''u-bob'', rt_expiresAt = 5000\<rparr>,
                       \<lparr>rt_token = r, rt_userId = ''u-alice'', rt_expiresAt = t + 604800000\<rparr>]\<rparr>"

text \<open>
  bcryptjs as it treats long passwords: only the first 72 bytes of a password enter
  the hash, so \<open>compare\<close> accepts every password that agrees with the hashed one on
  them.
\<close>

definition ext72 :: ext where
  "ext72 = \<lparr>bcrypt_hash = (\<lambda>p r. ''$2a$'' @ take 72 p),
            bcrypt_compare = (\<lambda>p h. h = ''$2a$'' @ take 72 p),
            parseInt = decimal, isEmail = (\<lambda>s. CHR ''@'' \<in> set s),
            isUuid = (\<lambda>s. length s = 36)\<rparr>"

text \<open>A password of 73 bytes: 72 times the letter a, then the given last character.\<close>

definition pw73 :: "char \<Rightarrow> string" where
  "pw73 c = replicate 72 (CHR ''a'') @ [c]"

definition doraBody :: registerBody where
  "doraBody = \<lparr>rb_email = ''dora@x.com'', rb_password = pw73 (CHR ''X''), rb_role = None\<rparr>"

definition dora :: user where
  "dora = \<lparr>u_id = ''u-dora'', u_email = ''dora@x.com'', u_role = EMPLOYEE, u_isActive = True,
           u_employee = None, u_lastLoginAt = None,
           u_password = ''$2a$'' @ replicate 72 (CHR ''a'')\<rparr>"

text \<open>The store after dora registered on \<open>db_alice\<close> at time 1000 with the draw \<open>r8\<close>.\<close>

definition after_register_dora :: db where
  "after_register_dora = db_alice\<lparr>users := [alice, dora],
     refreshTokens := refreshTokens db_alice @
        [\<lparr>rt_token = ''r8'', rt_userId = ''u-dora'', rt_expiresAt = 604801000\<rparr>],
     auditLogs := [\<lparr>al_userId = ''u-dora'', al_action = CREATE, al_resource = ''users'',
                    al_resourceId = Some ''u-dora''\<rparr>]\<rparr>"

text \<open>The row \<open>POST /register\<close> stores for a validated body (lines 38 to 46).\<close>

definition registered_user :: "ext \<Rightarrow> runtime \<Rightarrow> registerBody \<Rightarrow> user" where
  "registered_user x rt b =
     \<lparr>u_id = newId rt, u_email = rb_email b,
      u_role = (case rb_role b of None \<Rightarrow> EMPLOYEE | Some r \<Rightarrow> r),
      u_isActive = isActive_default, u_employee = None, u_lastLoginAt = None,
      u_password = bcrypt_hash x (rb_password b)
         (parseInt x (getEnvVariable (env rt) ''BCRYPT_ROUNDS'' ''12''))\<rparr>"

definition carolBody :: registerBody where
  "carolBody = \<lparr>rb_email = ''carol@x.com'', rb_password = ''s3cretpw'', rb_role = None\<rparr>"

definition carol :: user where
  "carol = \<lparr>u_id = ''u-carol'', u_email = ''carol@x.com'', u_role = EMPLOYEE, u_isActive = True,
            u_employee = None, u_lastLoginAt = None, u_password = ''$2a$s3cretpw''\<rparr>"

text \<open>The store after carol registered on \<open>db_alice\<close> at time 1000 with the draw \<open>r9\<close>.\<close>

definition after_register :: db where
  "after_register = db_alice\<lparr>users := [alice, carol],
     refreshTokens := refreshTokens db_alice @
        [\<lparr>rt_token = ''r9'', rt_userId = ''u-carol'', rt_expiresAt = 604801000\<rparr>],
     auditLogs := [\<lparr>al_userId = ''u-carol'', al_action = CREATE, al_resource = ''users'',
                    al_resourceId = Some ''u-carol''\<rparr>]\<rparr>"

definition caller_alice :: caller where
  "caller_alice = \<lparr>c_id = ''u-alice'', c_role = EMPLOYEE, c_employee = Some \<lparr>emp_id = ''e-alice''\<rparr>\<rparr>"

definition caller_dave :: caller where
  "caller_dave = \<lparr>c_id = ''u-dave'', c_role = EMPLOYEE, c_employee = None\<rparr>"

definition caller_admin :: caller where
  "caller_admin = \<lparr>c_id = ''u-root'', c_role = ADMIN, c_employee = None\<rparr>"

definition pay_alice :: payrollRecord where
  "pay_alice = \<lparr>pr_id = ''p-1'', pr_employeeId = ''e-alice'', pr_payPeriodStart = 100,
                 pr_payPeriodEnd = 200, pr_netPay = 3000, pr_status = PAID\<rparr>"

definition pay_bob :: payrollRecord where
  "pay_bob = \<lparr>pr_id = ''p-2'', pr_employeeId = ''e-bob'', pr_payPeriodStart = 300,
               pr_payPeriodEnd = 400, pr_netPay = 5000, pr_status = DRAFT\<rparr>"

definition db_pay :: db where
  "db_pay = db0\<lparr>payrollRecords := [pay_alice, pay_bob]\<rparr>"

definition read_entry :: "uuid \<Rightarrow> uuid option \<Rightarrow> auditLog" where
  "read_entry actor rid = \<lparr>al_userId = actor, al_action = READ, al_resource = ''payroll_records'',
                            al_resourceId = rid\<rparr>"

definition query_all :: listQuery where
  "query_all = \<lparr>q_page = 1, q_limit = 10, q_employeeId = None, q_status = None,
                 q_startDate = None, q_endDate = None\<rparr>"

text \<open>A reference \<open>getAllUsers\<close>: the requested page of the user table, without the hashes.\<close>

definition getAllUsers0 :: "usersQuery \<Rightarrow> db \<Rightarrow> error + user_public list" where
  "getAllUsers0 q d = Inr (map user_public.truncate (take (uq_limit q) (drop ((uq_page q - 1) * uq_limit q) (users d))))"

definition users_query :: usersQuery where
  "users_query = \<lparr>uq_page = 1, uq_limit = 10, uq_search = None, uq_role = None, uq_isActive = None\<rparr>"

definition db_audited :: db where
  "db_audited = db0\<lparr>auditLogs := [read_entry ''u-alice'' (Some ''p-1''), read_entry ''u-root'' None]\<rparr>"

definition audit_query :: auditQuery where
  "audit_query = \<lparr>aq_userId = None, aq_action = Some ''CREATE'', aq_resource = None,
                   aq_page = Some ''2'', aq_limit = None\<rparr>"

definition audit_query_any :: auditQuery where
  "audit_query_any = \<lparr>aq_userId = None, aq_action = None, aq_resource = None,
                   aq_page = None, aq_limit = None\<rparr>"

definition settingTheme :: settingBody where
  "settingTheme = \<lparr>sb_key = Some ''theme'', sb_value = Some ''dark'', sb_category = None,
                    sb_isPublic = None\<rparr>"

definition deptBody :: departmentBody where
  "deptBody = \<lparr>dpb_name = ''Research'', dpb_managerId = None, dpb_parentId = None,
                dpb_description = None\<rparr>"

text \<open>A store with a reset token of alice, and the store after the token was used.\<close>

definition db_reset :: db where
  "db_reset = db0\<lparr>users := [alice],
     passwordResetTokens := [\<lparr>prt_token = ''t1'', prt_userId = ''u-alice'', prt_expiresAt = 5000\<rparr>]\<rparr>"

definition after_reset :: db where
  "after_reset = db0\<lparr>users := [alice\<lparr>u_password := ''$2a$newpass99''\<rparr>]\<rparr>"

definition resetT1 :: "string \<Rightarrow> resetBody" where
  "resetT1 pw = \<lparr>rs_token = ''t1'', rs_newPassword = pw\<rparr>"

text \<open>\<open>db_alice\<close> after alice requested a reset at time 1000, and after the token was used.\<close>

definition after_request :: db where
  "after_request = db_alice\<lparr>passwordResetTokens :=
      [\<lparr>prt_token = ''t7'', prt_userId = ''u-alice'', prt_expiresAt = 3601000\<rparr>]\<rparr>"

definition after_request_used :: db where
  "after_request_used = db_alice\<lparr>users := [alice\<lparr>u_password := ''$2a$newpass99''\<rparr>]\<rparr>"

section \<open>Properties of login and the refresh token ledger\<close>

lemma decimal_ttl: "decimal ''604800000'' = Some 604800000"
  by (simp add: decimal_def)

lemma decimal_12: "decimal ''12'' = Some 12"
  by (simp add: decimal_def)

lemma find_snoc:
  "find P (xs @ [y]) = (case find P xs of Some v \<Rightarrow> Some v | None \<Rightarrow> if P y then Some y else None)"
  by (induction xs) auto

lemma login_success:
  assumes "login x rt vb d = (Inr r, d')"
  shows "ar_refreshToken r = rand rt"
    and "rand rt \<notin> rt_token ` set (filter (\<lambda>t. rt_userId t \<noteq> u_id (ar_user r)) (refreshTokens d))"
    and "\<exists>e. refreshTokens d' = filter (\<lambda>t. rt_userId t \<noteq> u_id (ar_user r)) (refreshTokens d) @
        [\<lparr>rt_token = rand rt, rt_userId = u_id (ar_user r), rt_expiresAt = e\<rparr>]"
  using assms
  by (auto simp: login_def Let_def refreshToken_create_def generateTokens_def user_public.truncate_def
      split: option.splits sum.splits if_splits)

lemma refresh_absent:
  "tok \<notin> rt_token ` set (refreshTokens d) \<Longrightarrow> refresh rt tok d = Inl InvalidToken"
proof -
  assume "tok \<notin> rt_token ` set (refreshTokens d)"
  then have "find (\<lambda>t. rt_token t = tok) (refreshTokens d) = None"
    by (auto simp: find_None_iff)
  then show ?thesis by (simp add: refresh_def)
qed

text \<open>
  C1. Two successful logins of the same user, the second drawing a refresh token other
  than the first: after each login the user's rows in the ledger are exactly the token
  just minted (the earlier rows were deleted before it was stored), the rows of every
  other user are as they were, and a refresh with the first login's token fails with
  \<open>InvalidToken\<close> after the second login, at any time.
\<close>

theorem login_single_refresh_lineage:
  assumes l1: "login x rt1 vb1 d0 = (Inr r1, d1)"
      and l2: "login x rt2 vb2 d1 = (Inr r2, d2)"
      and same: "u_id (ar_user r2) = u_id (ar_user r1)"
      and fresh: "ar_refreshToken r2 \<noteq> ar_refreshToken r1"
  shows "map rt_token (filter (\<lambda>t. rt_userId t = u_id (ar_user r1)) (refreshTokens d1))
           = [ar_refreshToken r1]
       \<and> map rt_token (filter (\<lambda>t. rt_userId t = u_id (ar_user r1)) (refreshTokens d2))
           = [ar_refreshToken r2]
       \<and> filter (\<lambda>t. rt_userId t \<noteq> u_id (ar_user r1)) (refreshTokens d2)
           = filter (\<lambda>t. rt_userId t \<noteq> u_id (ar_user r1)) (refreshTokens d0)
       \<and> refresh rt3 (ar_refreshToken r1) d2 = Inl InvalidToken"
proof -
  note tok1 = login_success(1) [OF l1] and new1 = login_success(2) [OF l1]
  note tok2 = login_success(1) [OF l2]
  from login_success(3) [OF l1] obtain e1 where
    tab1: "refreshTokens d1 = filter (\<lambda>t. rt_userId t \<noteq> u_id (ar_user r1)) (refreshTokens d0) @
        [\<lparr>rt_token = rand rt1, rt_userId = u_id (ar_user r1), rt_expiresAt = e1\<rparr>]" ..
  from login_success(3) [OF l2] obtain e2 where
    tab2: "refreshTokens d2 = filter (\<lambda>t. rt_userId t \<noteq> u_id (ar_user r2)) (refreshTokens d1) @
        [\<lparr>rt_token = rand rt2, rt_userId = u_id (ar_user r2), rt_expiresAt = e2\<rparr>]" ..
  have a: "map rt_token (filter (\<lambda>t. rt_userId t = u_id (ar_user r1)) (refreshTokens d1))
             = [ar_refreshToken r1]"
    by (simp add: tab1 tok1)
  have b: "map rt_token (filter (\<lambda>t. rt_userId t = u_id (ar_user r1)) (refreshTokens d2))
             = [ar_refreshToken r2]"
    by (simp add: tab2 tab1 tok2 same)
  have c: "filter (\<lambda>t. rt_userId t \<noteq> u_id (ar_user r1)) (refreshTokens d2)
           = filter (\<lambda>t. rt_userId t \<noteq> u_id (ar_user r1)) (refreshTokens d0)"
    by (simp add: tab2 tab1 same)
  have "rand rt1 \<notin> rt_token ` set (refreshTokens d2)"
    using new1 fresh by (auto simp: tab2 tab1 same tok1 tok2)
  then have e: "refresh rt3 (ar_refreshToken r1) d2 = Inl InvalidToken"
    by (simp add: refresh_absent tok1)
  from a b c e show ?thesis by blast
qed

lemma login_alice_first:
  "login ext0 (rt0 1000 ''r1'' ''-'') (Some aliceLogin) db_alice
     = (Inr (alice_session None ''r1''), after_login 1000 ''r1'')"
  by (simp add: login_def verify_def ext0_def rt0_def db_alice_def db0_def alice_def aliceLogin_def
      user_findUnique_email_def generateTokens_def refreshToken_create_def getEnvVariable_def
      decimal_ttl plus_ms_def user_public.truncate_def alice_public_def after_login_def
      alice_session_def)

lemma login_alice_second:
  "login ext0 (rt0 2000 ''r2'' ''-'') (Some aliceLogin) (after_login 1000 ''r1'')
     = (Inr (alice_session (Some 1000) ''r2''), after_login 2000 ''r2'')"
  by (simp add: login_def verify_def ext0_def rt0_def db0_def alice_def aliceLogin_def
      user_findUnique_email_def generateTokens_def refreshToken_create_def getEnvVariable_def
      decimal_ttl plus_ms_def user_public.truncate_def alice_public_def after_login_def
      alice_session_def)

theorem login_single_refresh_lineage_witness:
  "login ext0 (rt0 1000 ''r1'' ''-'') (Some aliceLogin) db_alice
     = (Inr (alice_session None ''r1''), after_login 1000 ''r1'')
   \<and> login ext0 (rt0 2000 ''r2'' ''-'') (Some aliceLogin) (after_login 1000 ''r1'')
     = (Inr (alice_session (Some 1000) ''r2''), after_login 2000 ''r2'')
   \<and> map rt_token (filter (\<lambda>t. rt_userId t = ''u-alice'') (refreshTokens (after_login 2000 ''r2'')))
     = [''r2'']
   \<and> refresh (rt0 3000 ''-'' ''-'') ''r1'' (after_login 2000 ''r2'') = Inl InvalidToken
   \<and> refresh (rt0 3000 ''-'' ''-'') ''r2'' (after_login 2000 ''r2'')
     = Inr (AccessToken ''u-alice'' EMPLOYEE)"
proof -
  have ok: "refresh (rt0 3000 ''-'' ''-'') ''r2'' (after_login 2000 ''r2'')
              = Inr (AccessToken ''u-alice'' EMPLOYEE)"
    by (simp add: refresh_def after_login_def rt0_def db0_def alice_def)
  show ?thesis
    using login_single_refresh_lineage [OF login_alice_first login_alice_second, of "rt0 3000 ''-'' ''-''"]
      login_alice_first login_alice_second ok
    by (simp add: alice_session_def alice_public_def)
qed

section \<open>Properties of credential verification\<close>

text \<open>
  C4. Whenever no user has the email, or the user is inactive, or the password does not
  compare with the stored hash, credential verification fails with one and the same
  error, \<open>AuthenticationError('Invalid credentials', null, 'INVALID_CREDENTIALS')\<close>,
  and so does the login request, which leaves the store as it was.
\<close>

theorem verify_failures_indistinguishable:
  assumes "user_findUnique_email email d = None
         \<or> (\<exists>usr. user_findUnique_email email d = Some usr \<and> \<not> u_isActive usr)
         \<or> (\<exists>usr. user_findUnique_email email d = Some usr \<and>
                   \<not> bcrypt_compare x password (u_password usr))"
  shows "verify x email password d
           = Inl (AuthenticationError ''Invalid credentials'' (Some ''INVALID_CREDENTIALS''))
       \<and> login x rt (Some \<lparr>lb_email = email, lb_password = password\<rparr>) d
           = (Inl (AuthenticationError ''Invalid credentials'' (Some ''INVALID_CREDENTIALS'')), d)"
proof -
  have v: "verify x email password d
           = Inl (AuthenticationError ''Invalid credentials'' (Some ''INVALID_CREDENTIALS''))"
    using assms by (auto simp: verify_def)
  then show ?thesis by (simp add: login_def)
qed

lemma find_alice: "user_findUnique_email ''alice@x.com'' db_alice = Some alice"
  by (simp add: user_findUnique_email_def db_alice_def db0_def alice_def)

lemma find_nobody: "user_findUnique_email ''nobody@x.com'' db_alice = None"
  by (simp add: user_findUnique_email_def db_alice_def db0_def alice_def)

lemma find_inactive:
  "user_findUnique_email ''alice@x.com'' (db_alice\<lparr>users := [alice\<lparr>u_isActive := False\<rparr>]\<rparr>)
     = Some (alice\<lparr>u_isActive := False\<rparr>)"
  by (simp add: user_findUnique_email_def db_alice_def db0_def alice_def)

theorem verify_failures_indistinguishable_witness:
  "verify ext0 ''nobody@x.com'' ''wonderland'' db_alice
     = Inl (AuthenticationError ''Invalid credentials'' (Some ''INVALID_CREDENTIALS''))
   \<and> verify ext0 ''alice@x.com'' ''wonderland'' (db_alice\<lparr>users := [alice\<lparr>u_isActive := False\<rparr>]\<rparr>)
     = Inl (AuthenticationError ''Invalid credentials'' (Some ''INVALID_CREDENTIALS''))
   \<and> verify ext0 ''alice@x.com'' ''Wonderland'' db_alice
     = Inl (AuthenticationError ''Invalid credentials'' (Some ''INVALID_CREDENTIALS''))
   \<and> verify ext0 ''alice@x.com'' ''wonderland'' db_alice = Inr alice"
proof -
  have a: "verify ext0 ''nobody@x.com'' ''wonderland'' db_alice
     = Inl (AuthenticationError ''Invalid credentials'' (Some ''INVALID_CREDENTIALS''))"
    using verify_failures_indistinguishable [of "''nobody@x.com''" db_alice ext0 "''wonderland''"]
    by (simp add: find_nobody)
  have b: "verify ext0 ''alice@x.com'' ''wonderland'' (db_alice\<lparr>users := [alice\<lparr>u_isActive := False\<rparr>]\<rparr>)
     = Inl (AuthenticationError ''Invalid credentials'' (Some ''INVALID_CREDENTIALS''))"
    using verify_failures_indistinguishable
      [of "''alice@x.com''" "db_alice\<lparr>users := [alice\<lparr>u_isActive := False\<rparr>]\<rparr>" ext0 "''wonderland''"]
    by (simp add: find_inactive)
  have c: "verify ext0 ''alice@x.com'' ''Wonderland'' db_alice
     = Inl (AuthenticationError ''Invalid credentials'' (Some ''INVALID_CREDENTIALS''))"
    using verify_failures_indistinguishable [of "''alice@x.com''" db_alice ext0 "''Wonderland''"]
    by (simp add: find_alice ext0_def alice_def)
  have d: "verify ext0 ''alice@x.com'' ''wonderland'' db_alice = Inr alice"
    by (simp add: verify_def find_alice) (simp add: ext0_def alice_def)
  from a b c d show ?thesis by simp
qed

section \<open>Properties of registration\<close>

lemma register_success:
  assumes "register x rt (Some b) d = (Inr r, d')"
  shows "user_findUnique_email (rb_email b) d = None"
    and "users d' = users d @
       [\<lparr>u_id = newId rt, u_email = rb_email b,
         u_role = (case rb_role b of None \<Rightarrow> EMPLOYEE | Some r \<Rightarrow> r),
         u_isActive = True, u_employee = None, u_lastLoginAt = None,
         u_password = bcrypt_hash x (rb_password b)
            (parseInt x (getEnvVariable (env rt) ''BCRYPT_ROUNDS'' ''12''))\<rparr>]"
    and "u_id (ar_user r) = newId rt"
  using assms
  by (auto simp: register_def Let_def user_create_def refreshToken_create_def createAuditLog_def
      isActive_default_def user_public.truncate_def split: option.splits sum.splits if_splits)

text \<open>
  C8. After a registration that succeeded, credential verification with the registered
  email finds the user just created, and its outcome is the outcome of \<open>bcrypt.compare\<close>
  against the stored hash of the registered password: with the registered password,
  which bcrypt accepts against its own hash, it succeeds and returns that user; with
  any other password it fails with the \<open>AuthenticationError\<close> of invalid credentials
  exactly when \<open>bcrypt.compare\<close> rejects that password, and returns the user when
  \<open>bcrypt.compare\<close> accepts it.
\<close>

theorem register_then_verify:
  assumes reg: "register x rt (Some b) d = (Inr r, d')"
      and accept: "bcrypt_compare x (rb_password b) (u_password (registered_user x rt b))"
  shows "verify x (rb_email b) (rb_password b) d' = Inr (registered_user x rt b)
       \<and> u_id (registered_user x rt b) = u_id (ar_user r)
       \<and> u_email (registered_user x rt b) = rb_email b
       \<and> (\<forall>other. verify x (rb_email b) other d'
                 = (if bcrypt_compare x other (u_password (registered_user x rt b))
                    then Inr (registered_user x rt b)
                    else Inl (AuthenticationError ''Invalid credentials''
                                (Some ''INVALID_CREDENTIALS''))))"
proof -
  note none = register_success(1) [OF reg] and us = register_success(2) [OF reg]
    and rid = register_success(3) [OF reg]
  have us': "users d' = users d @ [registered_user x rt b]"
    by (simp add: us registered_user_def isActive_default_def)
  have act: "u_isActive (registered_user x rt b)" and em: "u_email (registered_user x rt b) = rb_email b"
    and uid: "u_id (registered_user x rt b) = newId rt"
    by (simp_all add: registered_user_def isActive_default_def)
  have f: "user_findUnique_email (rb_email b) d' = Some (registered_user x rt b)"
    using none by (simp add: user_findUnique_email_def us' find_snoc em)
  have any: "verify x (rb_email b) other d'
                 = (if bcrypt_compare x other (u_password (registered_user x rt b))
                    then Inr (registered_user x rt b)
                    else Inl (AuthenticationError ''Invalid credentials''
                                (Some ''INVALID_CREDENTIALS'')))" for other
    by (simp add: verify_def f act)
  have ok: "verify x (rb_email b) (rb_password b) d' = Inr (registered_user x rt b)"
    using accept by (simp add: any)
  have i: "u_id (registered_user x rt b) = u_id (ar_user r)"
    by (simp add: uid rid)
  from any have all: "\<forall>other. verify x (rb_email b) other d'
                 = (if bcrypt_compare x other (u_password (registered_user x rt b))
                    then Inr (registered_user x rt b)
                    else Inl (AuthenticationError ''Invalid credentials''
                                (Some ''INVALID_CREDENTIALS'')))"
    by (rule allI)
  show ?thesis
    by (rule conjI [OF ok conjI [OF i conjI [OF em all]]])
qed

lemma register_carol:
  "register ext72 (rt0 1000 ''r9'' ''u-carol'') (Some carolBody) db_alice
     = (Inr \<lparr>ar_user = user_public.truncate carol, ar_accessToken = AccessToken ''u-carol'' EMPLOYEE,
             ar_refreshToken = ''r9''\<rparr>, after_register)"
  by (simp add: register_def ext72_def rt0_def db_alice_def db0_def alice_def carolBody_def carol_def
      user_findUnique_email_def user_create_def generateTokens_def refreshToken_create_def
      getEnvVariable_def
      decimal_ttl decimal_12 plus_ms_def user_public.truncate_def after_register_def
      createAuditLog_def isActive_default_def)

lemma registered_carol:
  "registered_user ext72 (rt0 1000 ''r9'' ''u-carol'') carolBody = carol"
  by (simp add: registered_user_def ext72_def rt0_def carolBody_def carol_def isActive_default_def)

lemma accept_carol:
  "bcrypt_compare ext72 (rb_password carolBody)
     (u_password (registered_user ext72 (rt0 1000 ''r9'' ''u-carol'') carolBody))"
  by (simp add: registered_carol) (simp add: ext72_def carolBody_def carol_def)

theorem register_then_verify_witness:
  "register ext72 (rt0 1000 ''r9'' ''u-carol'') (Some carolBody) db_alice
     = (Inr \<lparr>ar_user = user_public.truncate carol, ar_accessToken = AccessToken ''u-carol'' EMPLOYEE,
             ar_refreshToken = ''r9''\<rparr>, after_register)
   \<and> verify ext72 ''carol@x.com'' ''s3cretpw'' after_register = Inr carol
   \<and> verify ext72 ''carol@x.com'' ''S3cretpw'' after_register
     = Inl (AuthenticationError ''Invalid credentials'' (Some ''INVALID_CREDENTIALS''))"
proof -
  note th = register_then_verify [OF register_carol accept_carol]
  have e: "rb_email carolBody = ''carol@x.com''" and p: "rb_password carolBody = ''s3cretpw''"
    by (simp_all add: carolBody_def)
  have v: "verify ext72 ''carol@x.com'' ''s3cretpw'' after_register = Inr carol"
    using th [THEN conjunct1] by (simp only: e p registered_carol)
  have rej: "\<not> bcrypt_compare ext72 ''S3cretpw'' (u_password carol)"
    by (simp add: ext72_def carol_def)
  have w: "verify ext72 ''carol@x.com'' ''S3cretpw'' after_register
     = Inl (AuthenticationError ''Invalid credentials'' (Some ''INVALID_CREDENTIALS''))"
    using th [THEN conjunct2, THEN conjunct2, THEN conjunct2, rule_format, of "''S3cretpw''"] rej
    by (simp only: e registered_carol if_False)
  from register_carol v w show ?thesis by (intro conjI)
qed

lemma take72_pw73: "take 72 (pw73 c) = replicate 72 (CHR ''a'')"
  by (simp add: pw73_def)

lemma registered_dora:
  "registered_user ext72 (rt0 1000 ''r8'' ''u-dora'') doraBody = dora"
  by (simp add: registered_user_def ext72_def rt0_def doraBody_def dora_def isActive_default_def
      take72_pw73)

lemma register_fresh:
  assumes none: "user_findUnique_email (rb_email b) d = None"
      and nid: "newId rt \<notin> u_id ` set (users d)"
      and ntok: "rand rt \<notin> rt_token ` set (refreshTokens d)"
      and ttl: "parseInt x (getEnvVariable (env rt) ''REFRESH_TOKEN_EXPIRES_MS'' ''604800000'') = Some ms"
  shows "register x rt (Some b) d =
     (Inr \<lparr>ar_user = user_public.truncate (registered_user x rt b),
            ar_accessToken = AccessToken (newId rt) (u_role (registered_user x rt b)),
            ar_refreshToken = rand rt\<rparr>,
      d\<lparr>users := users d @ [registered_user x rt b],
        refreshTokens := refreshTokens d @
          [\<lparr>rt_token = rand rt, rt_userId = newId rt, rt_expiresAt = now rt + ms\<rparr>],
        auditLogs := auditLogs d @
          [\<lparr>al_userId = newId rt, al_action = CREATE, al_resource = ''users'',
            al_resourceId = Some (newId rt)\<rparr>]\<rparr>)"
proof -
  from none have "rb_email b \<notin> u_email ` set (users d)"
    by (force simp: user_findUnique_email_def find_None_iff)
  with nid have c: "user_create (registered_user x rt b) d
                    = Inr (d\<lparr>users := users d @ [registered_user x rt b]\<rparr>)"
    by (simp add: user_create_def registered_user_def)
  have u: "\<lparr>u_id = newId rt, u_email = rb_email b,
            u_role = (case rb_role b of None \<Rightarrow> EMPLOYEE | Some r \<Rightarrow> r),
            u_isActive = isActive_default, u_employee = None, u_lastLoginAt = None,
            u_password = bcrypt_hash x (rb_password b)
              (parseInt x (getEnvVariable (env rt) ''BCRYPT_ROUNDS'' ''12''))\<rparr>
           = registered_user x rt b"
    by (simp add: registered_user_def)
  have i: "u_id (registered_user x rt b) = newId rt"
    by (simp add: registered_user_def)
  show ?thesis
    using ntok
    by (simp add: register_def none Let_def u c i generateTokens_def refreshToken_create_def
        ttl plus_ms_def createAuditLog_def)
qed

lemma register_dora:
  "register ext72 (rt0 1000 ''r8'' ''u-dora'') (Some doraBody) db_alice
     = (Inr \<lparr>ar_user = user_public.truncate dora, ar_accessToken = AccessToken ''u-dora'' EMPLOYEE,
             ar_refreshToken = ''r8''\<rparr>, after_register_dora)"
proof -
  have none: "user_findUnique_email (rb_email doraBody) db_alice = None"
    by (simp add: user_findUnique_email_def doraBody_def db_alice_def db0_def alice_def)
  have nid: "newId (rt0 1000 ''r8'' ''u-dora'') \<notin> u_id ` set (users db_alice)"
    by (simp add: rt0_def db_alice_def db0_def alice_def)
  have ntok: "rand (rt0 1000 ''r8'' ''u-dora'') \<notin> rt_token ` set (refreshTokens db_alice)"
    by (simp add: rt0_def db_alice_def db0_def)
  have ttl: "parseInt ext72 (getEnvVariable (env (rt0 1000 ''r8'' ''u-dora''))
               ''REFRESH_TOKEN_EXPIRES_MS'' ''604800000'') = Some 604800000"
    by (simp add: ext72_def rt0_def getEnvVariable_def decimal_ttl)
  have role: "u_role dora = EMPLOYEE"
    by (simp add: dora_def)
  show ?thesis
    unfolding register_fresh [OF none nid ntok ttl] registered_dora role
    by (simp add: rt0_def after_register_dora_def db_alice_def db0_def)
qed
lemma verify_dora:
  "verify ext72 ''dora@x.com'' (pw73 c) after_register_dora = Inr dora"
  by (simp add: verify_def user_findUnique_email_def after_register_dora_def db_alice_def db0_def
      alice_def dora_def ext72_def take72_pw73)

text \<open>
  With a bcrypt that hashes only the first 72 bytes, "any other password fails" does not
  hold: dora registers with 72 times a and a final X, and verification with 72 times a
  and a final Y, a different password, returns her user.
\<close>

theorem register_then_verify_counterexample:
  "register ext72 (rt0 1000 ''r8'' ''u-dora'') (Some doraBody) db_alice
     = (Inr \<lparr>ar_user = user_public.truncate dora, ar_accessToken = AccessToken ''u-dora'' EMPLOYEE,
             ar_refreshToken = ''r8''\<rparr>, after_register_dora)
   \<and> pw73 (CHR ''Y'') \<noteq> rb_password doraBody
   \<and> verify ext72 (rb_email doraBody) (pw73 (CHR ''Y'')) after_register_dora = Inr dora
   \<and> verify ext72 (rb_email doraBody) (pw73 (CHR ''Y'')) after_register_dora
       \<noteq> Inl (AuthenticationError ''Invalid credentials'' (Some ''INVALID_CREDENTIALS''))"
proof -
  have e: "rb_email doraBody = ''dora@x.com''" and p: "rb_password doraBody = pw73 (CHR ''X'')"
    by (simp_all add: doraBody_def)
  have ne: "pw73 (CHR ''Y'') \<noteq> rb_password doraBody"
    by (simp add: p pw73_def)
  have v: "verify ext72 (rb_email doraBody) (pw73 (CHR ''Y'')) after_register_dora = Inr dora"
    by (simp only: e verify_dora)
  then have n: "verify ext72 (rb_email doraBody) (pw73 (CHR ''Y'')) after_register_dora
       \<noteq> Inl (AuthenticationError ''Invalid credentials'' (Some ''INVALID_CREDENTIALS''))"
    by simp
  from register_dora ne v n show ?thesis by (intro conjI)
qed

section \<open>Properties of the authorization guard and the payroll routes\<close>

lemma guarded_role:
  "guarded allowed (Some c) = (if c_role c \<in> set allowed then Inr c else Inl Forbidden)"
  by (simp add: guarded_def authenticate_def authorize_def)

text \<open>
  The single payroll record endpoint admits the role EMPLOYEE under the own-record
  rule: for an authenticated caller with role EMPLOYEE and an existing record, the
  record is returned if and only if the record's employee id equals the id of the
  caller's linked employee; in every other case the request is denied with
  \<open>AppError('Access denied', 403)\<close> and the store is unchanged.
\<close>

theorem payroll_get_ownership:
  assumes emp: "c_role c = EMPLOYEE"
      and rec: "find (\<lambda>r. pr_id r = ident) (payrollRecords d) = Some record"
  shows "(fst (payroll_get (Some c) ident d) = Inr record)
           = (map_option emp_id (c_employee c) = Some (pr_employeeId record))
       \<and> (map_option emp_id (c_employee c) \<noteq> Some (pr_employeeId record) \<longrightarrow>
            payroll_get (Some c) ident d = (Inl (AppError ''Access denied'' 403), d)
            \<and> denied (AppError ''Access denied'' 403))"
  using emp rec by (simp add: payroll_get_def guarded_role)

lemma pay_find_1: "find (\<lambda>r. pr_id r = ''p-1'') (payrollRecords db_pay) = Some pay_alice"
  by (simp add: db_pay_def db0_def pay_alice_def pay_bob_def)

lemma pay_find_2: "find (\<lambda>r. pr_id r = ''p-2'') (payrollRecords db_pay) = Some pay_bob"
  by (simp add: db_pay_def db0_def pay_alice_def pay_bob_def)

theorem payroll_get_ownership_witness:
  "fst (payroll_get (Some caller_alice) ''p-1'' db_pay) = Inr pay_alice
   \<and> payroll_get (Some caller_alice) ''p-2'' db_pay = (Inl (AppError ''Access denied'' 403), db_pay)
   \<and> payroll_get (Some caller_dave) ''p-1'' db_pay = (Inl (AppError ''Access denied'' 403), db_pay)
   \<and> auditLogs (snd (payroll_get (Some caller_alice) ''p-1'' db_pay))
       = [read_entry ''u-alice'' (Some ''p-1'')]"
proof -
  have ra: "c_role caller_alice = EMPLOYEE" and rd: "c_role caller_dave = EMPLOYEE"
    by (simp_all add: caller_alice_def caller_dave_def)
  have a: "fst (payroll_get (Some caller_alice) ''p-1'' db_pay) = Inr pay_alice"
    using payroll_get_ownership [OF ra pay_find_1]
    by (simp add: caller_alice_def pay_alice_def)
  have b: "payroll_get (Some caller_alice) ''p-2'' db_pay = (Inl (AppError ''Access denied'' 403), db_pay)"
    using payroll_get_ownership [OF ra pay_find_2]
    by (simp add: caller_alice_def pay_bob_def)
  have c: "payroll_get (Some caller_dave) ''p-1'' db_pay = (Inl (AppError ''Access denied'' 403), db_pay)"
    using payroll_get_ownership [OF rd pay_find_1]
    by (simp add: caller_dave_def)
  have e: "auditLogs (snd (payroll_get (Some caller_alice) ''p-1'' db_pay))
       = [read_entry ''u-alice'' (Some ''p-1'')]"
    by (simp add: payroll_get_def guarded_role pay_find_1 createAuditLog_def read_entry_def)
       (simp add: caller_alice_def pay_alice_def db_pay_def db0_def)
  from a b c e show ?thesis by simp
qed

text \<open>
  C3. The role check passes exactly when the caller's role is a member of the declared
  allowed-role set. On the user list endpoint, declared with \<open>authorize('ADMIN', 'HR')\<close>
  and no ownership rule, the chain admits exactly ADMIN and HR, and every authenticated
  caller with role EMPLOYEE is denied, whatever the query, the store and the user
  service are; the store is unchanged.
\<close>

theorem users_list_role_check:
  "(authorize allowed c = Inr ()) = (c_role c \<in> set allowed)
   \<and> (guarded [ADMIN, HR] (Some c) = Inr c) = (c_role c \<in> {ADMIN, HR})
   \<and> (c_role c = EMPLOYEE \<longrightarrow>
         users_list getAllUsers (Some c) vquery d = (Inl Forbidden, d) \<and> denied Forbidden)"
  by (simp add: users_list_def guarded_role authorize_def)

theorem users_list_role_check_witness:
  "users_list getAllUsers0 (Some caller_alice) (Inr users_query) db_alice = (Inl Forbidden, db_alice)
   \<and> authorize [ADMIN, HR] caller_alice = Inl Forbidden
   \<and> authorize [ADMIN, HR] caller_admin = Inr ()
   \<and> fst (users_list getAllUsers0 (Some caller_admin) (Inr users_query) db_alice)
       = Inr [alice_public None]"
proof -
  have a: "users_list getAllUsers0 (Some caller_alice) (Inr users_query) db_alice = (Inl Forbidden, db_alice)"
    using users_list_role_check [of "[ADMIN, HR]" caller_alice getAllUsers0 "Inr users_query" db_alice]
    by (simp add: caller_alice_def)
  have b: "authorize [ADMIN, HR] caller_alice = Inl Forbidden"
    by (simp add: authorize_def caller_alice_def)
  have c: "authorize [ADMIN, HR] caller_admin = Inr ()"
    using users_list_role_check [of "[ADMIN, HR]" caller_admin getAllUsers0 "Inr users_query" db_alice]
    by (simp add: caller_admin_def)
  have e: "fst (users_list getAllUsers0 (Some caller_admin) (Inr users_query) db_alice)
       = Inr [alice_public None]"
    by (simp add: users_list_def guarded_role getAllUsers0_def)
       (simp add: caller_admin_def users_query_def db_alice_def db0_def alice_def alice_public_def
          user_public.truncate_def)
  from a b c e show ?thesis by simp
qed

lemma list_where_unlinked:
  "c_employee c = None \<Longrightarrow>
   list_where c q = \<lparr>w_employeeId = q_employeeId q, w_status = q_status q,
                      w_gte = q_startDate q, w_lte = q_endDate q\<rparr>"
  by (simp add: list_where_def)

lemma payroll_list_role_blind:
  assumes "c_employee c = None" and "c_role c \<in> {ADMIN, HR, EMPLOYEE}" and "r \<in> {ADMIN, HR, EMPLOYEE}"
  shows "payroll_list (Some (c\<lparr>c_role := r\<rparr>)) v d = payroll_list (Some c) v d"
proof -
  have w: "list_where (c\<lparr>c_role := r\<rparr>) q = list_where c q" for q
    using assms(1) by (simp add: list_where_def)
  have g: "guarded [ADMIN, HR, EMPLOYEE] (Some (c\<lparr>c_role := r\<rparr>)) = Inr (c\<lparr>c_role := r\<rparr>)"
    and g': "guarded [ADMIN, HR, EMPLOYEE] (Some c) = Inr c"
    using assms(2,3) by (auto simp: guarded_role)
  show ?thesis
    by (cases v) (simp_all add: payroll_list_def g g' w Let_def split: sum.splits)
qed

text \<open>
  C9. On the payroll list endpoint, for an authenticated caller with role EMPLOYEE and
  no linked employee: the own-records rule does not touch the filter, the response is
  the one an ADMIN with the same request gets, and for a query without filters whose
  first page is large enough the response holds every payroll record of the store,
  whoever it belongs to.
\<close>

theorem payroll_list_unlinked_employee:
  assumes emp: "c_role c = EMPLOYEE" and unlinked: "c_employee c = None"
  shows "w_employeeId (list_where c q) = q_employeeId q
       \<and> payroll_list (Some c) (Inr q) d = payroll_list (Some (c\<lparr>c_role := ADMIN\<rparr>)) (Inr q) d
       \<and> (q_employeeId q = None \<and> q_status q = None \<and> q_startDate q = None \<and> q_endDate q = None
            \<and> q_page q = 1 \<and> length (payrollRecords d) \<le> q_limit q \<longrightarrow>
          (\<exists>resp. fst (payroll_list (Some c) (Inr q) d) = Inr resp
                  \<and> set (pl_records resp) = set (payrollRecords d)
                  \<and> pl_total resp = length (payrollRecords d)))"
proof -
  have a: "w_employeeId (list_where c q) = q_employeeId q"
    by (simp add: list_where_unlinked [OF unlinked])
  have b: "payroll_list (Some c) (Inr q) d = payroll_list (Some (c\<lparr>c_role := ADMIN\<rparr>)) (Inr q) d"
    using payroll_list_role_blind [of c ADMIN "Inr q" d] emp unlinked by simp
  have c: "\<exists>resp. fst (payroll_list (Some c) (Inr q) d) = Inr resp
                  \<and> set (pl_records resp) = set (payrollRecords d)
                  \<and> pl_total resp = length (payrollRecords d)"
    if none: "q_employeeId q = None" "q_status q = None" "q_startDate q = None" "q_endDate q = None"
      and pg: "q_page q = 1" and lim: "length (payrollRecords d) \<le> q_limit q"
  proof -
    have w: "matches (list_where c q) = (\<lambda>r. True)"
      by (simp add: list_where_unlinked [OF unlinked] matches_def none fun_eq_iff)
    have f: "payrollRecord_findMany (list_where c q) 0 (q_limit q) d
               = Inr (sort_key (\<lambda>r. - pr_payPeriodStart r) (payrollRecords d))"
      using lim by (simp add: payrollRecord_findMany_def w)
    show ?thesis
      by (simp add: payroll_list_def guarded_role emp pg f Let_def payrollRecord_count_def w)
  qed
  from a b c show ?thesis by blast
qed

lemma payroll_list_dave:
  "fst (payroll_list (Some caller_dave) (Inr query_all) db_pay)
     = Inr \<lparr>pl_records = [pay_bob, pay_alice], pl_page = 1, pl_limit = 10, pl_total = 2,
            pl_pages = Some 1\<rparr>"
  by (simp add: payroll_list_def guarded_role caller_dave_def query_all_def list_where_def
      payrollRecord_findMany_def payrollRecord_count_def matches_def pages_of_def
      db_pay_def db0_def pay_alice_def pay_bob_def)

lemma payroll_list_alice:
  "fst (payroll_list (Some caller_alice) (Inr query_all) db_pay)
     = Inr \<lparr>pl_records = [pay_alice], pl_page = 1, pl_limit = 10, pl_total = 1,
            pl_pages = Some 1\<rparr>"
  by (simp add: payroll_list_def guarded_role caller_alice_def query_all_def list_where_def
      payrollRecord_findMany_def payrollRecord_count_def matches_def pages_of_def
      db_pay_def db0_def pay_alice_def pay_bob_def)

theorem payroll_list_unlinked_employee_witness:
  "c_role caller_dave = EMPLOYEE \<and> c_employee caller_dave = None
   \<and> fst (payroll_list (Some caller_dave) (Inr query_all) db_pay)
     = Inr \<lparr>pl_records = [pay_bob, pay_alice], pl_page = 1, pl_limit = 10, pl_total = 2,
            pl_pages = Some 1\<rparr>
   \<and> payroll_list (Some caller_dave) (Inr query_all) db_pay
     = payroll_list (Some (caller_dave\<lparr>c_role := ADMIN\<rparr>)) (Inr query_all) db_pay
   \<and> fst (payroll_list (Some caller_alice) (Inr query_all) db_pay)
     = Inr \<lparr>pl_records = [pay_alice], pl_page = 1, pl_limit = 10, pl_total = 1,
            pl_pages = Some 1\<rparr>"
proof -
  have r: "c_role caller_dave = EMPLOYEE" and u: "c_employee caller_dave = None"
    by (simp_all add: caller_dave_def)
  from payroll_list_unlinked_employee [OF r u, of query_all db_pay]
  have "payroll_list (Some caller_dave) (Inr query_all) db_pay
     = payroll_list (Some (caller_dave\<lparr>c_role := ADMIN\<rparr>)) (Inr query_all) db_pay"
    by blast
  with r u payroll_list_dave payroll_list_alice show ?thesis by simp
qed

text \<open>
  C2. The payroll list endpoint admits the role EMPLOYEE under the own-records rule and
  applies the rule only to a caller with a linked employee. The caller \<open>caller_dave\<close>,
  an authenticated EMPLOYEE without one, asks for the first page of the store
  \<open>db_pay\<close> and is served the record of employee \<open>e-bob\<close> and the record of employee
  \<open>e-alice\<close>, neither of them his own, where the rule asks for a denial; the single
  record endpoint denies the same caller each of the two records with a 403.
\<close>

theorem payroll_list_serves_foreign_records:
  "c_role caller_dave = EMPLOYEE \<and> c_employee caller_dave = None
   \<and> fst (payroll_list (Some caller_dave) (Inr query_all) db_pay)
     = Inr \<lparr>pl_records = [pay_bob, pay_alice], pl_page = 1, pl_limit = 10, pl_total = 2,
            pl_pages = Some 1\<rparr>
   \<and> pr_employeeId pay_bob = ''e-bob'' \<and> pr_employeeId pay_alice = ''e-alice''
   \<and> payroll_get (Some caller_dave) ''p-1'' db_pay = (Inl (AppError ''Access denied'' 403), db_pay)
   \<and> payroll_get (Some caller_dave) ''p-2'' db_pay = (Inl (AppError ''Access denied'' 403), db_pay)"
proof -
  have r: "c_role caller_dave = EMPLOYEE" and u: "c_employee caller_dave = None"
    by (simp_all add: caller_dave_def)
  have o: "pr_employeeId pay_bob = ''e-bob''" and o': "pr_employeeId pay_alice = ''e-alice''"
    by (simp_all add: pay_bob_def pay_alice_def)
  have g1: "payroll_get (Some caller_dave) ''p-1'' db_pay = (Inl (AppError ''Access denied'' 403), db_pay)"
    by (simp add: payroll_get_def guarded_role pay_find_1 r u)
  have g2: "payroll_get (Some caller_dave) ''p-2'' db_pay = (Inl (AppError ''Access denied'' 403), db_pay)"
    by (simp add: payroll_get_def guarded_role pay_find_2 r u)
  from r u payroll_list_dave o o' g1 g2 show ?thesis by (intro conjI)
qed

section \<open>Properties of the audit log listing\<close>

text \<open>
  C10. The audit log listing answers every authenticated ADMIN or HR caller whose query
  passes validation with an empty list of logs and a total of 0, whatever the store
  holds, and leaves the store as it is; no response of the endpoint, for any caller and
  any query, carries a stored audit entry.
\<close>

theorem auditLog_list_always_empty:
  "(c_role c \<in> {ADMIN, HR} \<longrightarrow>
      (\<forall>v. validateAuditLog x q = Inr v \<longrightarrow>
           auditLog_list x (Some c) q d
             = (Inr \<lparr>alr_logs = [], alr_total = 0, alr_page = af_page v, alr_limit = af_limit v\<rparr>, d)))
   \<and> (\<forall>resp. fst (auditLog_list x req_user q d) = Inr resp \<longrightarrow>
         alr_logs resp = [] \<and> alr_total resp = 0)"
  by (auto simp: auditLog_list_def guarded_def authenticate_def authorize_def
      split: option.splits sum.splits if_splits)

lemma validate_audit_query:
  "validateAuditLog ext0 audit_query
     = Inr \<lparr>af_userId = None, af_action = Some ''CREATE'', af_resource = None,
            af_page = Some 2, af_limit = Some 10\<rparr>"
  by (simp add: validateAuditLog_def audit_query_def ext0_def decimal_def)

theorem auditLog_list_always_empty_witness:
  "length (auditLogs db_audited) = 2
   \<and> auditLog_list ext0 (Some caller_admin) audit_query db_audited
     = (Inr \<lparr>alr_logs = [], alr_total = 0, alr_page = Some 2, alr_limit = Some 10\<rparr>, db_audited)
   \<and> auditLog_list ext0 (Some caller_admin) audit_query_any db_audited
     = (Inr \<lparr>alr_logs = [], alr_total = 0, alr_page = Some 1, alr_limit = Some 10\<rparr>, db_audited)"
proof -
  have a: "auditLog_list ext0 (Some caller_admin) audit_query db_audited
     = (Inr \<lparr>alr_logs = [], alr_total = 0, alr_page = Some 2, alr_limit = Some 10\<rparr>, db_audited)"
    using auditLog_list_always_empty [of caller_admin ext0 audit_query db_audited]
      validate_audit_query
    by (simp add: caller_admin_def)
  have b: "auditLog_list ext0 (Some caller_admin) audit_query_any db_audited
     = (Inr \<lparr>alr_logs = [], alr_total = 0, alr_page = Some 1, alr_limit = Some 10\<rparr>, db_audited)"
    by (simp add: auditLog_list_def guarded_role validateAuditLog_def audit_query_any_def)
       (simp add: caller_admin_def)
  have c: "length (auditLogs db_audited) = 2"
    by (simp add: db_audited_def db0_def)
  from a b c show ?thesis by simp
qed

section \<open>Properties of the audit trail\<close>

lemma setting_post_auditLogs:
  "auditLogs (snd (setting_post rt req_user body d)) = auditLogs d"
  by (auto simp: setting_post_def setting_create_def Let_def
      split: sum.splits prod.splits if_splits)

lemma trainingRecord_post_auditLogs:
  "auditLogs (snd (trainingRecord_post x rt req_user body d)) = auditLogs d"
  by (auto simp: trainingRecord_post_def trainingRecord_create_def Let_def
      split: sum.splits prod.splits if_splits)

lemma department_post_audited:
  assumes "department_post rt (Some c) vbody d = (Inr dep, d')"
  shows "auditLogs d' = auditLogs d @
           [\<lparr>al_userId = c_id c, al_action = CREATE, al_resource = ''department'',
             al_resourceId = Some (dp_id dep)\<rparr>]"
  using assms
  by (auto simp: department_post_def guarded_role department_create_def createAuditLog_def Let_def
      split: sum.splits prod.splits if_splits)

text \<open>
  C5. The handler that creates a setting is guarded (\<open>authMiddleware\<close>,
  \<open>roleMiddleware(['ADMIN'])\<close>) and does not call \<open>createAuditLog\<close>: an ADMIN who
  creates the setting \<open>theme = dark\<close> on the empty store gets the 201 response with the
  new row, and the audit log is still empty. The handler that creates a department, run
  by the same caller, writes the one matching entry.
\<close>

theorem setting_post_leaves_no_audit_entry:
  "setting_post (rt0 1000 ''-'' ''s-1'') (Some caller_admin) settingTheme db0
     = (Inr \<lparr>st_id = ''s-1'', st_key = ''theme'', st_value = ''dark'', st_category = None,
             st_isPublic = None\<rparr>,
        db0\<lparr>settings := [\<lparr>st_id = ''s-1'', st_key = ''theme'', st_value = ''dark'',
                            st_category = None, st_isPublic = None\<rparr>]\<rparr>)
   \<and> auditLogs (snd (setting_post (rt0 1000 ''-'' ''s-1'') (Some caller_admin) settingTheme db0)) = []
   \<and> auditLogs (snd (department_post (rt0 1000 ''-'' ''d-1'') (Some caller_admin) (Inr deptBody) db0))
       = [\<lparr>al_userId = ''u-root'', al_action = CREATE, al_resource = ''department'',
           al_resourceId = Some ''d-1''\<rparr>]"
proof -
  have a: "setting_post (rt0 1000 ''-'' ''s-1'') (Some caller_admin) settingTheme db0
     = (Inr \<lparr>st_id = ''s-1'', st_key = ''theme'', st_value = ''dark'', st_category = None,
             st_isPublic = None\<rparr>,
        db0\<lparr>settings := [\<lparr>st_id = ''s-1'', st_key = ''theme'', st_value = ''dark'',
                            st_category = None, st_isPublic = None\<rparr>]\<rparr>)"
    by (simp add: setting_post_def guarded_role caller_admin_def validateSetting_def
        settingTheme_def setting_create_def rt0_def db0_def Let_def)
  have b: "auditLogs (snd (setting_post (rt0 1000 ''-'' ''s-1'') (Some caller_admin) settingTheme db0)) = []"
    by (simp add: setting_post_auditLogs) (simp add: db0_def)
  have c: "auditLogs (snd (department_post (rt0 1000 ''-'' ''d-1'') (Some caller_admin) (Inr deptBody) db0))
       = [\<lparr>al_userId = ''u-root'', al_action = CREATE, al_resource = ''department'',
           al_resourceId = Some ''d-1''\<rparr>]"
    by (simp add: department_post_def guarded_role caller_admin_def deptBody_def
        department_create_def rt0_def db0_def createAuditLog_def Let_def)
  from a b c show ?thesis by simp
qed

section \<open>Properties of the password reset flow\<close>

lemma resetPassword_outcomes:
  "resetPassword x rt b d = (Inl InvalidToken, d)
   \<or> (\<exists>t. find (\<lambda>t. prt_token t = rs_token b) (passwordResetTokens d) = Some t
          \<and> now rt \<le> prt_expiresAt t
          \<and> prt_userId t \<in> u_id ` set (users d)
          \<and> resetPassword x rt b d =
              (Inr (),
               d\<lparr>users := map (\<lambda>u. if u_id u = prt_userId t
                                    then u\<lparr>u_password := bcrypt_hash x (rs_newPassword b)
                                           (parseInt x (getEnvVariable (env rt) ''BCRYPT_ROUNDS'' ''12''))\<rparr>
                                    else u) (users d),
                 passwordResetTokens :=
                   filter (\<lambda>t'. prt_token t' \<noteq> rs_token b) (passwordResetTokens d)\<rparr>))"
  by (auto simp: resetPassword_def split: option.splits)

lemma resetPassword_missing:
  "rs_token b \<notin> prt_token ` set (passwordResetTokens d) \<Longrightarrow>
   resetPassword x rt b d = (Inl InvalidToken, d)"
proof -
  assume "rs_token b \<notin> prt_token ` set (passwordResetTokens d)"
  then have "find (\<lambda>t. prt_token t = rs_token b) (passwordResetTokens d) = None"
    by (force simp: find_None_iff)
  then show ?thesis by (simp add: resetPassword_def)
qed

lemma set_password_ids:
  "map u_id (map (\<lambda>u::user. if u_id u = k then u\<lparr>u_password := h\<rparr> else u) us) = map u_id us"
  by (simp add: o_def)

lemma set_password_hash:
  assumes "v \<in> (\<lambda>u::user. if u_id u = k then u\<lparr>u_password := h\<rparr> else u) ` set us"
      and "u_id v = k"
  shows "u_password v = h"
proof -
  from assms(1) obtain u where v: "v = (if u_id u = k then u\<lparr>u_password := h\<rparr> else u)"
    by (rule imageE)
  show ?thesis
  proof (cases "u_id u = k")
    case True
    with v show ?thesis by simp
  next
    case False
    with v assms(2) show ?thesis by simp
  qed
qed

lemma resetPassword_success:
  assumes ok: "resetPassword x rt b d = (Inr (), d')"
  shows "rs_token b \<notin> prt_token ` set (passwordResetTokens d')"
    and "\<exists>t. find (\<lambda>t. prt_token t = rs_token b) (passwordResetTokens d) = Some t
          \<and> now rt \<le> prt_expiresAt t
          \<and> (\<exists>u \<in> set (users d'). u_id u = prt_userId t)
          \<and> (\<forall>u \<in> set (users d'). u_id u = prt_userId t \<longrightarrow>
                u_password u = bcrypt_hash x (rs_newPassword b)
                   (parseInt x (getEnvVariable (env rt) ''BCRYPT_ROUNDS'' ''12'')))"
proof -
  let ?h = "bcrypt_hash x (rs_newPassword b)
              (parseInt x (getEnvVariable (env rt) ''BCRYPT_ROUNDS'' ''12''))"
  let ?d = "\<lambda>t. d\<lparr>users := map (\<lambda>u. if u_id u = prt_userId t
                                    then u\<lparr>u_password := ?h\<rparr> else u) (users d),
                 passwordResetTokens :=
                   filter (\<lambda>t'. prt_token t' \<noteq> rs_token b) (passwordResetTokens d)\<rparr>"
  have "resetPassword x rt b d \<noteq> (Inl InvalidToken, d)"
    using ok by simp
  with resetPassword_outcomes [of x rt b d] obtain t where
    f: "find (\<lambda>t. prt_token t = rs_token b) (passwordResetTokens d) = Some t"
    and live: "now rt \<le> prt_expiresAt t"
    and owner: "prt_userId t \<in> u_id ` set (users d)"
    and eq: "resetPassword x rt b d = (Inr (), ?d t)"
    by blast
  from ok eq have d': "d' = ?d t"
    by simp
  have toks: "passwordResetTokens d'
                = filter (\<lambda>t'. prt_token t' \<noteq> rs_token b) (passwordResetTokens d)"
    and us: "users d' = map (\<lambda>u. if u_id u = prt_userId t
                                    then u\<lparr>u_password := ?h\<rparr> else u) (users d)"
    by (simp_all add: d')
  show "rs_token b \<notin> prt_token ` set (passwordResetTokens d')"
    unfolding toks by auto
  have "map u_id (users d') = map u_id (users d)"
    unfolding us by (rule set_password_ids)
  then have "set (map u_id (users d')) = set (map u_id (users d))"
    by (rule arg_cong)
  then have ids: "u_id ` set (users d') = u_id ` set (users d)"
    by (simp only: set_map)
  have ex: "\<exists>u \<in> set (users d'). u_id u = prt_userId t"
  proof -
    from owner have "prt_userId t \<in> u_id ` set (users d')"
      by (simp only: ids)
    then show ?thesis
      by (rule imageE) (rule bexI, rule sym)
  qed
  have all: "\<forall>u \<in> set (users d'). u_id u = prt_userId t \<longrightarrow> u_password u = ?h"
  proof (intro ballI impI)
    fix u assume "u \<in> set (users d')" and k: "u_id u = prt_userId t"
    then have "u \<in> (\<lambda>u::user. if u_id u = prt_userId t then u\<lparr>u_password := ?h\<rparr> else u)
                    ` set (users d)"
      unfolding us by (simp only: set_map)
    then show "u_password u = ?h"
      using k by (rule set_password_hash)
  qed
  from f live ex all
  show "\<exists>t. find (\<lambda>t. prt_token t = rs_token b) (passwordResetTokens d) = Some t
          \<and> now rt \<le> prt_expiresAt t
          \<and> (\<exists>u \<in> set (users d'). u_id u = prt_userId t)
          \<and> (\<forall>u \<in> set (users d'). u_id u = prt_userId t \<longrightarrow> u_password u = ?h)"
    by blast
qed

text \<open>
  C6. \<open>resetPassword\<close> fails with \<open>InvalidToken\<close>, leaving the store as it was, when
  the token is not stored or is past its expiry. When it succeeds, the store it returns
  has the token consumed and the password hash of the token's owner replaced by the
  hash of the new password, and every later call with that token, at any time and with
  any password, fails with \<open>InvalidToken\<close> and changes nothing, so the stored password
  is the one of the first successful call. Every call ends in one of these two
  outcomes: there is no result in which only the token or only the password changed.
\<close>

theorem resetPassword_at_most_once:
  "(rs_token b \<notin> prt_token ` set (passwordResetTokens d) \<longrightarrow>
      resetPassword x rt b d = (Inl InvalidToken, d))
   \<and> (\<forall>t. find (\<lambda>t. prt_token t = rs_token b) (passwordResetTokens d) = Some t
           \<and> prt_expiresAt t < now rt \<longrightarrow> resetPassword x rt b d = (Inl InvalidToken, d))
   \<and> (\<forall>d'. resetPassword x rt b d = (Inr (), d') \<longrightarrow>
         rs_token b \<notin> prt_token ` set (passwordResetTokens d')
         \<and> (\<exists>t. find (\<lambda>t. prt_token t = rs_token b) (passwordResetTokens d) = Some t
               \<and> (\<exists>u \<in> set (users d'). u_id u = prt_userId t)
               \<and> (\<forall>u \<in> set (users d'). u_id u = prt_userId t \<longrightarrow>
                     u_password u = bcrypt_hash x (rs_newPassword b)
                        (parseInt x (getEnvVariable (env rt) ''BCRYPT_ROUNDS'' ''12''))))
         \<and> (\<forall>rt' pw'. resetPassword x rt' \<lparr>rs_token = rs_token b, rs_newPassword = pw'\<rparr> d'
                         = (Inl InvalidToken, d')))
   \<and> (resetPassword x rt b d = (Inl InvalidToken, d) \<or> (\<exists>d'. resetPassword x rt b d = (Inr (), d')))"
proof -
  have a: "rs_token b \<notin> prt_token ` set (passwordResetTokens d) \<longrightarrow>
      resetPassword x rt b d = (Inl InvalidToken, d)"
    by (simp add: resetPassword_missing)
  have e: "\<forall>t. find (\<lambda>t. prt_token t = rs_token b) (passwordResetTokens d) = Some t
           \<and> prt_expiresAt t < now rt \<longrightarrow> resetPassword x rt b d = (Inl InvalidToken, d)"
    by (simp add: resetPassword_def)
  have s: "rs_token b \<notin> prt_token ` set (passwordResetTokens d')
         \<and> (\<exists>t. find (\<lambda>t. prt_token t = rs_token b) (passwordResetTokens d) = Some t
               \<and> (\<exists>u \<in> set (users d'). u_id u = prt_userId t)
               \<and> (\<forall>u \<in> set (users d'). u_id u = prt_userId t \<longrightarrow>
                     u_password u = bcrypt_hash x (rs_newPassword b)
                        (parseInt x (getEnvVariable (env rt) ''BCRYPT_ROUNDS'' ''12''))))
         \<and> (\<forall>rt' pw'. resetPassword x rt' \<lparr>rs_token = rs_token b, rs_newPassword = pw'\<rparr> d'
                         = (Inl InvalidToken, d'))"
    if ok: "resetPassword x rt b d = (Inr (), d')" for d'
  proof -
    note gone = resetPassword_success(1) [OF ok]
    from resetPassword_success(2) [OF ok] have pw:
      "\<exists>t. find (\<lambda>t. prt_token t = rs_token b) (passwordResetTokens d) = Some t
               \<and> (\<exists>u \<in> set (users d'). u_id u = prt_userId t)
               \<and> (\<forall>u \<in> set (users d'). u_id u = prt_userId t \<longrightarrow>
                     u_password u = bcrypt_hash x (rs_newPassword b)
                        (parseInt x (getEnvVariable (env rt) ''BCRYPT_ROUNDS'' ''12'')))"
      by blast
    have again: "resetPassword x rt' \<lparr>rs_token = rs_token b, rs_newPassword = pw'\<rparr> d'
                         = (Inl InvalidToken, d')" for rt' pw'
      using gone by (simp add: resetPassword_missing)
    from gone pw again show ?thesis by blast
  qed
  have t: "resetPassword x rt b d = (Inl InvalidToken, d) \<or> (\<exists>d'. resetPassword x rt b d = (Inr (), d'))"
    using resetPassword_outcomes [of x rt b d] by blast
  from a e s t show ?thesis by blast
qed

lemma reset_first:
  "resetPassword ext0 (rt0 1000 ''-'' ''-'') (resetT1 ''newpass99'') db_reset = (Inr (), after_reset)"
  by (simp add: resetPassword_def resetT1_def db_reset_def db0_def alice_def rt0_def ext0_def
      after_reset_def)

theorem resetPassword_at_most_once_witness:
  "resetPassword ext0 (rt0 1000 ''-'' ''-'') (resetT1 ''newpass99'') db_reset = (Inr (), after_reset)
   \<and> resetPassword ext0 (rt0 2000 ''-'' ''-'') (resetT1 ''laterpass1'') after_reset
       = (Inl InvalidToken, after_reset)
   \<and> map u_password (users after_reset) = [''$2a$newpass99'']
   \<and> resetPassword ext0 (rt0 6000 ''-'' ''-'') (resetT1 ''newpass99'') db_reset
       = (Inl InvalidToken, db_reset)
   \<and> resetPassword ext0 (rt0 1000 ''-'' ''-'') \<lparr>rs_token = ''t2'', rs_newPassword = ''newpass99''\<rparr> db_reset
       = (Inl InvalidToken, db_reset)"
proof -
  note once = resetPassword_at_most_once
    [where b = "resetT1 ''newpass99''" and d = db_reset and x = ext0 and rt = "rt0 1000 ''-'' ''-''",
      THEN conjunct2, THEN conjunct2, THEN conjunct1, rule_format, OF reset_first,
      THEN conjunct2, THEN conjunct2, rule_format]
  have tok: "rs_token (resetT1 ''newpass99'') = ''t1''"
    by (simp add: resetT1_def)
  have again: "resetPassword ext0 (rt0 2000 ''-'' ''-'') (resetT1 ''laterpass1'') after_reset
       = (Inl InvalidToken, after_reset)"
    using once [of "rt0 2000 ''-'' ''-''" "''laterpass1''"]
    by (simp add: resetT1_def)
  have pw: "map u_password (users after_reset) = [''$2a$newpass99'']"
    by (simp add: after_reset_def db0_def)
  have expired: "resetPassword ext0 (rt0 6000 ''-'' ''-'') (resetT1 ''newpass99'') db_reset
       = (Inl InvalidToken, db_reset)"
    by (simp add: resetPassword_def resetT1_def db_reset_def db0_def rt0_def)
  have missing: "resetPassword ext0 (rt0 1000 ''-'' ''-'') \<lparr>rs_token = ''t2'', rs_newPassword = ''newpass99''\<rparr> db_reset
       = (Inl InvalidToken, db_reset)"
    by (simp add: resetPassword_def db_reset_def db0_def)
  from reset_first again pw expired missing show ?thesis by (intro conjI)
qed

lemma requestPasswordReset_ok: "fst (requestPasswordReset rt email d) = Inr ()"
  by (simp add: requestPasswordReset_def split: option.splits)

lemma reset_password_request_ok:
  "fst (reset_password_request rt v d) = (case v of Inl e \<Rightarrow> Inl e | Inr email \<Rightarrow> Inr ''Reset token sent'')"
  by (simp add: reset_password_request_def requestPasswordReset_def split: sum.splits option.splits)

lemma reset_password_request_store:
  "snd (reset_password_request rt (Inr email) d) = snd (requestPasswordReset rt email d)"
  by (simp add: reset_password_request_def requestPasswordReset_def split: option.splits)

text \<open>
  C7. The response of the reset request route does not depend on the store: two runs
  that differ only in whether the email is registered answer the same, and for every
  email that passed validation the answer is the success message. The service itself
  always returns success. When no user has the email the store is unchanged; when a
  user has it, exactly one token is added, owned by that user, expiring one hour after
  the request, and usable for at most one successful reset.
\<close>

theorem reset_request_uniform:
  "fst (reset_password_request rt v d1) = fst (reset_password_request rt v d2)
   \<and> fst (reset_password_request rt (Inr email) d) = Inr ''Reset token sent''
   \<and> fst (requestPasswordReset rt email d) = Inr ()
   \<and> (user_findUnique_email email d = None \<longrightarrow>
         snd (reset_password_request rt (Inr email) d) = d)
   \<and> (\<forall>usr. user_findUnique_email email d = Some usr \<longrightarrow>
         passwordResetTokens (snd (reset_password_request rt (Inr email) d))
           = passwordResetTokens d @
               [\<lparr>prt_token = rand rt, prt_userId = u_id usr,
                 prt_expiresAt = now rt + RESET_TOKEN_TTL_MS\<rparr>]
         \<and> RESET_TOKEN_TTL_MS \<le> 3600000
         \<and> (\<forall>x rtA rtB pwA pwB dA.
               resetPassword x rtA \<lparr>rs_token = rand rt, rs_newPassword = pwA\<rparr>
                  (snd (reset_password_request rt (Inr email) d)) = (Inr (), dA)
               \<longrightarrow> resetPassword x rtB \<lparr>rs_token = rand rt, rs_newPassword = pwB\<rparr> dA
                     = (Inl InvalidToken, dA)))"
proof -
  have a: "fst (reset_password_request rt v d1) = fst (reset_password_request rt v d2)"
    by (simp add: reset_password_request_ok)
  have b: "fst (reset_password_request rt (Inr email) d) = Inr ''Reset token sent''"
    by (simp add: reset_password_request_ok)
  have c: "user_findUnique_email email d = None \<longrightarrow>
         snd (reset_password_request rt (Inr email) d) = d"
    by (simp add: reset_password_request_store requestPasswordReset_def)
  have e: "passwordResetTokens (snd (reset_password_request rt (Inr email) d))
           = passwordResetTokens d @
               [\<lparr>prt_token = rand rt, prt_userId = u_id usr,
                 prt_expiresAt = now rt + RESET_TOKEN_TTL_MS\<rparr>]"
    if "user_findUnique_email email d = Some usr" for usr
    using that by (simp add: reset_password_request_store requestPasswordReset_def)
  have f: "RESET_TOKEN_TTL_MS \<le> 3600000"
    by (simp add: RESET_TOKEN_TTL_MS_def)
  have g: "resetPassword x rtB \<lparr>rs_token = rand rt, rs_newPassword = pwB\<rparr> dA
                     = (Inl InvalidToken, dA)"
    if ok: "resetPassword x rtA \<lparr>rs_token = rand rt, rs_newPassword = pwA\<rparr> d' = (Inr (), dA)"
    for x rtA rtB pwA pwB dA d'
  proof -
    from resetPassword_success(1) [OF ok]
    have "rand rt \<notin> prt_token ` set (passwordResetTokens dA)" by simp
    then show ?thesis by (simp add: resetPassword_missing)
  qed
  have G: "\<forall>x rtA rtB pwA pwB dA.
               resetPassword x rtA \<lparr>rs_token = rand rt, rs_newPassword = pwA\<rparr>
                  (snd (reset_password_request rt (Inr email) d)) = (Inr (), dA)
               \<longrightarrow> resetPassword x rtB \<lparr>rs_token = rand rt, rs_newPassword = pwB\<rparr> dA
                     = (Inl InvalidToken, dA)"
    by (intro allI impI) (erule g)
  have E: "\<forall>usr. user_findUnique_email email d = Some usr \<longrightarrow>
         passwordResetTokens (snd (reset_password_request rt (Inr email) d))
           = passwordResetTokens d @
               [\<lparr>prt_token = rand rt, prt_userId = u_id usr,
                 prt_expiresAt = now rt + RESET_TOKEN_TTL_MS\<rparr>]
         \<and> RESET_TOKEN_TTL_MS \<le> 3600000
         \<and> (\<forall>x rtA rtB pwA pwB dA.
               resetPassword x rtA \<lparr>rs_token = rand rt, rs_newPassword = pwA\<rparr>
                  (snd (reset_password_request rt (Inr email) d)) = (Inr (), dA)
               \<longrightarrow> resetPassword x rtB \<lparr>rs_token = rand rt, rs_newPassword = pwB\<rparr> dA
                     = (Inl InvalidToken, dA))"
  proof (intro allI impI)
    fix usr assume "user_findUnique_email email d = Some usr"
    from e [OF this] f G
    show "passwordResetTokens (snd (reset_password_request rt (Inr email) d))
           = passwordResetTokens d @
               [\<lparr>prt_token = rand rt, prt_userId = u_id usr,
                 prt_expiresAt = now rt + RESET_TOKEN_TTL_MS\<rparr>]
         \<and> RESET_TOKEN_TTL_MS \<le> 3600000
         \<and> (\<forall>x rtA rtB pwA pwB dA.
               resetPassword x rtA \<lparr>rs_token = rand rt, rs_newPassword = pwA\<rparr>
                  (snd (reset_password_request rt (Inr email) d)) = (Inr (), dA)
               \<longrightarrow> resetPassword x rtB \<lparr>rs_token = rand rt, rs_newPassword = pwB\<rparr> dA
                     = (Inl InvalidToken, dA))"
      by (intro conjI)
  qed
  show ?thesis
    by (rule conjI [OF a conjI [OF b conjI [OF requestPasswordReset_ok conjI [OF c E]]]])
qed

lemma request_alice_store:
  "snd (reset_password_request (rt0 1000 ''t7'' ''-'') (Inr ''alice@x.com'') db_alice) = after_request"
  by (simp add: reset_password_request_store requestPasswordReset_def find_alice)
     (simp add: after_request_def db_alice_def db0_def alice_def rt0_def RESET_TOKEN_TTL_MS_def)

lemma request_nobody_store:
  "snd (reset_password_request (rt0 1000 ''t7'' ''-'') (Inr ''nobody@x.com'') db_alice) = db_alice"
  by (simp add: reset_password_request_store requestPasswordReset_def find_nobody)

lemma rand_t7: "rand (rt0 1000 ''t7'' ''-'') = ''t7''"
  by (simp add: rt0_def)

lemma use_t7:
  "resetPassword ext0 (rt0 2000 ''-'' ''-'') \<lparr>rs_token = ''t7'', rs_newPassword = ''newpass99''\<rparr>
        after_request = (Inr (), after_request_used)"
  by (simp add: resetPassword_def after_request_def after_request_used_def db_alice_def db0_def
      alice_def rt0_def ext0_def)

theorem reset_request_uniform_witness:
  "reset_password_request (rt0 1000 ''t7'' ''-'') (Inr ''alice@x.com'') db_alice
     = (Inr ''Reset token sent'', after_request)
   \<and> reset_password_request (rt0 1000 ''t7'' ''-'') (Inr ''nobody@x.com'') db_alice
     = (Inr ''Reset token sent'', db_alice)
   \<and> prt_expiresAt (last (passwordResetTokens after_request)) - 1000 \<le> 3600000
   \<and> resetPassword ext0 (rt0 2000 ''-'' ''-'') \<lparr>rs_token = ''t7'', rs_newPassword = ''newpass99''\<rparr>
        after_request = (Inr (), after_request_used)
   \<and> resetPassword ext0 (rt0 3000 ''-'' ''-'') \<lparr>rs_token = ''t7'', rs_newPassword = ''laterpass1''\<rparr>
        after_request_used = (Inl InvalidToken, after_request_used)"
proof -
  note th = reset_request_uniform
    [where rt = "rt0 1000 ''t7'' ''-''" and email = "''alice@x.com''" and d = db_alice]
  have a1: "fst (reset_password_request (rt0 1000 ''t7'' ''-'') (Inr ''alice@x.com'') db_alice)
              = Inr ''Reset token sent''"
    by (rule th [THEN conjunct2, THEN conjunct1])
  have a: "reset_password_request (rt0 1000 ''t7'' ''-'') (Inr ''alice@x.com'') db_alice
     = (Inr ''Reset token sent'', after_request)"
    by (rule prod_eqI) (simp_all only: a1 request_alice_store fst_conv snd_conv)
  have b1: "fst (reset_password_request (rt0 1000 ''t7'' ''-'') (Inr ''nobody@x.com'') db_alice)
              = Inr ''Reset token sent''"
    by (rule reset_request_uniform [THEN conjunct2, THEN conjunct1])
  have b: "reset_password_request (rt0 1000 ''t7'' ''-'') (Inr ''nobody@x.com'') db_alice
     = (Inr ''Reset token sent'', db_alice)"
    by (rule prod_eqI) (simp_all only: b1 request_nobody_store fst_conv snd_conv)
  note once = th [THEN conjunct2, THEN conjunct2, THEN conjunct2, THEN conjunct2, rule_format,
      OF find_alice, THEN conjunct2, THEN conjunct2, rule_format]
  have use': "resetPassword ext0 (rt0 2000 ''-'' ''-'')
        \<lparr>rs_token = rand (rt0 1000 ''t7'' ''-''), rs_newPassword = ''newpass99''\<rparr>
        (snd (reset_password_request (rt0 1000 ''t7'' ''-'') (Inr ''alice@x.com'') db_alice))
      = (Inr (), after_request_used)"
    by (simp only: request_alice_store rand_t7 use_t7)
  have c: "resetPassword ext0 (rt0 3000 ''-'' ''-'') \<lparr>rs_token = ''t7'', rs_newPassword = ''laterpass1''\<rparr>
        after_request_used = (Inl InvalidToken, after_request_used)"
    using once [OF use', of "rt0 3000 ''-'' ''-''" "''laterpass1''"] by (simp only: rand_t7)
  have e: "prt_expiresAt (last (passwordResetTokens after_request)) - 1000 \<le> 3600000"
    by (simp add: after_request_def)
  from a b e use_t7 c show ?thesis by (intro conjI)
qed

end
